theory Spec2Isabelle
  imports Complex_Main "HOL-Library.Multiset" "HOL-Library.Product_Lexorder"
begin

section \<open>Python values, exceptions and the library boundary\<close>

text \<open>
  The service of \<^verbatim>\<open>backend/app/main.py\<close> handles Python dictionaries and lists
  that come out of \<^verbatim>\<open>json.loads\<close> or are built by the fallback. They are modelled by
  one datatype of JSON-shaped values: a \<^verbatim>\<open>dict\<close> is an association list in insertion
  order (its keys pairwise distinct, as in a \<^verbatim>\<open>dict\<close>), \<^verbatim>\<open>None\<close> is \<open>JNull\<close>.
  A Python \<^verbatim>\<open>str\<close> is modelled by its UTF-8 bytes; the characters the code searches
  for (\<^verbatim>\<open>{\<close>, \<^verbatim>\<open>}\<close>, \<^verbatim>\<open>image/\<close>) are ASCII, so searching and slicing agree with
  Python's on code points.

  A number is a Python \<^verbatim>\<open>int\<close>, unbounded and exact, or a float: a finite double
  \<open>Fin x\<close> of value \<open>x\<close>, an infinity or NaN. Arithmetic on ints alone is exact and is
  written out. Whatever rounds, overflows or raises (the sum of numbers with a float
  among them, the true division, numpy's sum and division) is not computed here: it
  is a parameter of the library below, and no theorem assumes more of it than its
  hypotheses say.
\<close>

type_synonym bytes = string

datatype flt = Fin real | PosInf | NegInf | NaN

fun is_fin :: "flt \<Rightarrow> bool" where
  "is_fin (Fin x) = True"
| "is_fin _ = False"

datatype json =
    JNull
  | JBool bool
  | JInt int
  | JFloat flt
  | JStr string
  | JArr "json list"
  | JObj "(string \<times> json) list"

datatype num = PyInt int | PyFloat flt

text \<open>
  Exceptions are values. \<open>LibraryError\<close> stands for whatever a library call (PIL,
  the provider's client, \<^verbatim>\<open>json\<close>) raises, with its message. A \<open>KeyError\<close> carries
  the \<^verbatim>\<open>repr\<close> of the missing key, which is its text. The message text of an
  interpreter-raised \<open>TypeError\<close> is not modelled (\<open>exn_str\<close> gives its class name):
  such an exception is raised only inside the \<^verbatim>\<open>try\<close> block of \<^verbatim>\<open>predict\<close>, whose
  handler absorbs it.
\<close>

datatype exn =
    HTTPException nat string
  | ValueError string
  | AttributeError string
  | LibraryError string
  | KeyError string
  | OverflowError string
  | ZeroDivisionError string
  | TypeError
  | IndexError

fun show_nat :: "nat \<Rightarrow> string" where
  "show_nat n =
     (if n < 10 then [char_of (48 + n)]
      else show_nat (n div 10) @ [char_of (48 + n mod 10)])"

declare show_nat.simps [simp del]

text \<open>
  \<^verbatim>\<open>str(e)\<close>. For an \<^verbatim>\<open>HTTPException\<close> this is Starlette's
  \<^verbatim>\<open>f"{self.status_code}: {self.detail}"\<close>.
\<close>

fun exn_str :: "exn \<Rightarrow> string" where
  "exn_str (HTTPException c d) = show_nat c @ '': '' @ d"
| "exn_str (ValueError m) = m"
| "exn_str (AttributeError m) = m"
| "exn_str (LibraryError m) = m"
| "exn_str (KeyError r) = r"
| "exn_str (OverflowError m) = m"
| "exn_str (ZeroDivisionError m) = m"
| "exn_str TypeError = ''TypeError''"
| "exn_str IndexError = ''list index out of range''"

record image =
  mode :: string
  raster :: bytes

record upload_file =
  content_type :: "string option"
  filename :: "string option"
  contents :: bytes

text \<open>
  Everything the module reaches outside itself, as parameters of one call:
  \<^item> \<open>getenv_api_key\<close>: \<^verbatim>\<open>os.getenv("OPENAI_API_KEY")\<close>;
  \<^item> \<open>image_open\<close>, \<open>convert_rgb\<close>, \<open>save_jpeg\<close>: \<^verbatim>\<open>Image.open\<close>,
    \<^verbatim>\<open>image.convert("RGB")\<close> and \<^verbatim>\<open>image.save(buffered, format="JPEG")\<close>;
  \<^item> \<open>b64encode\<close>: \<^verbatim>\<open>base64.b64encode(...).decode()\<close>;
  \<^item> \<open>chat_completion\<close>: lines 65 to 101, the request to the provider made with the
    client (its key) and the data URL of the image, followed by
    \<^verbatim>\<open>response.choices[0].message.content\<close>: an exception, or the content, which may
    be \<^verbatim>\<open>None\<close>;
  \<^item> \<open>json_loads\<close>: \<^verbatim>\<open>json.loads\<close>;
  \<^item> \<open>float_sum\<close>: the built-in \<^verbatim>\<open>sum\<close> of numbers of which one at least is a float:
    the float the interpreter accumulates, or the \<^verbatim>\<open>OverflowError\<close> of an int too large
    for a float;
  \<^item> \<open>true_divide\<close>: \<^verbatim>\<open>x / y\<close> on two numbers: the float quotient as the interpreter
    rounds it, or the exception it raises;
  \<^item> \<open>random_random\<close>: \<^verbatim>\<open>np.random.random(n)\<close>, the vector drawn at this call;
  \<^item> \<open>np_sum\<close>, \<open>np_divide\<close>: \<^verbatim>\<open>np.sum\<close> of a vector of doubles, and the division
    of one entry of a vector by a double (a warning, never an exception: 0/0 is NaN);
  \<^item> \<open>argsort\<close>: \<^verbatim>\<open>np.argsort\<close>.
\<close>

record lib =
  getenv_api_key :: "string option"
  image_open :: "bytes \<Rightarrow> exn + image"
  convert_rgb :: "image \<Rightarrow> exn + image"
  save_jpeg :: "image \<Rightarrow> exn + bytes"
  b64encode :: "bytes \<Rightarrow> string"
  chat_completion :: "string \<Rightarrow> string \<Rightarrow> exn + string option"
  json_loads :: "string \<Rightarrow> exn + json"
  float_sum :: "num list \<Rightarrow> exn + flt"
  true_divide :: "num \<Rightarrow> num \<Rightarrow> exn + flt"
  random_random :: "nat \<Rightarrow> flt list"
  np_sum :: "flt list \<Rightarrow> flt"
  np_divide :: "flt \<Rightarrow> flt \<Rightarrow> flt"
  argsort :: "flt list \<Rightarrow> nat list"

text \<open>
  The order in which numpy sorts doubles: the numeric order, with NaN after
  everything else.
\<close>

fun flt_key :: "flt \<Rightarrow> nat \<times> real" where
  "flt_key NegInf = (0, 0)"
| "flt_key (Fin x) = (1, x)"
| "flt_key PosInf = (2, 0)"
| "flt_key NaN = (3, 0)"

definition flt_le :: "flt \<Rightarrow> flt \<Rightarrow> bool" where
  "flt_le a b = (flt_key a \<le> flt_key b)"

text \<open>
  The contracts of the two numpy calls, on the arguments of one call:
  \<^verbatim>\<open>np.random.random(n)\<close> returns \<open>n\<close> doubles of the half-open interval from 0 to 1,
  and \<^verbatim>\<open>np.argsort(ps)\<close> returns a permutation of the indices of \<open>ps\<close> along which
  \<open>ps\<close> is non-decreasing in numpy's order (how it orders equal entries is left open).
\<close>

fun unit_interval :: "flt \<Rightarrow> bool" where
  "unit_interval (Fin x) = (0 \<le> x \<and> x < 1)"
| "unit_interval _ = False"

definition random_ok :: "nat \<Rightarrow> flt list \<Rightarrow> bool" where
  "random_ok n rs = (length rs = n \<and> list_all unit_interval rs)"

definition argsort_ok :: "flt list \<Rightarrow> nat list \<Rightarrow> bool" where
  "argsort_ok ps idx =
     (sort idx = [0..<length ps] \<and> sorted (map (\<lambda>i. flt_key (ps ! i)) idx))"

section \<open>The candidate labels and the messages\<close>

definition BIKE_MODELS :: "string list" where
  "BIKE_MODELS =
     [''Honda CBR600RR'',
      ''Yamaha YZF-R1'',
      ''Kawasaki Ninja ZX-10R'',
      ''Suzuki GSX-R1000'',
      ''Ducati Panigale V4'',
      ''BMW S1000RR'',
      ''Aprilia RSV4'',
      ''KTM RC 390'',
      ''Triumph Daytona 675'',
      ''MV Agusta F3'']"

text \<open>The Japanese messages of the source, as their UTF-8 bytes.\<close>

definition msg_no_api_key :: string where
  \<comment> \<open>line 48\<close>
  "msg_no_api_key = ''OPENAI_API_KEY'' @ [CHR 0xE7, CHR 0x92, CHR 0xB0, CHR 0xE5, CHR 0xA2,
     CHR 0x83, CHR 0xE5, CHR 0xA4, CHR 0x89, CHR 0xE6, CHR 0x95, CHR 0xB0, CHR 0xE3, CHR 0x81,
     CHR 0x8C, CHR 0xE8, CHR 0xA8, CHR 0xAD, CHR 0xE5, CHR 0xAE, CHR 0x9A, CHR 0xE3, CHR 0x81,
     CHR 0x95, CHR 0xE3, CHR 0x82, CHR 0x8C, CHR 0xE3, CHR 0x81, CHR 0xA6, CHR 0xE3, CHR 0x81,
     CHR 0x84, CHR 0xE3, CHR 0x81, CHR 0xBE, CHR 0xE3, CHR 0x81, CHR 0x9B, CHR 0xE3, CHR 0x82,
     CHR 0x93]"

definition msg_no_client :: string where
  \<comment> \<open>line 58\<close>
  "msg_no_client = ''OpenAI '' @ [CHR 0xE3, CHR 0x82, CHR 0xAF, CHR 0xE3, CHR 0x83, CHR 0xA9,
     CHR 0xE3, CHR 0x82, CHR 0xA4, CHR 0xE3, CHR 0x82, CHR 0xA2, CHR 0xE3, CHR 0x83, CHR 0xB3,
     CHR 0xE3, CHR 0x83, CHR 0x88, CHR 0xE3, CHR 0x81, CHR 0x8C, CHR 0xE5, CHR 0x88, CHR 0x9D,
     CHR 0xE6, CHR 0x9C, CHR 0x9F, CHR 0xE5, CHR 0x8C, CHR 0x96, CHR 0xE3, CHR 0x81, CHR 0x95,
     CHR 0xE3, CHR 0x82, CHR 0x8C, CHR 0xE3, CHR 0x81, CHR 0xA6, CHR 0xE3, CHR 0x81, CHR 0x84,
     CHR 0xE3, CHR 0x81, CHR 0xBE, CHR 0xE3, CHR 0x81, CHR 0x9B, CHR 0xE3, CHR 0x82, CHR 0x93]"

definition msg_no_json :: string where
  \<comment> \<open>line 120\<close>
  "msg_no_json = [CHR 0xE6, CHR 0x9C, CHR 0x89, CHR 0xE5, CHR 0x8A, CHR 0xB9, CHR 0xE3, CHR 0x81,
     CHR 0xAA] @ ''JSON'' @ [CHR 0xE3, CHR 0x83, CHR 0xAC, CHR 0xE3, CHR 0x82, CHR 0xB9, CHR 0xE3,
     CHR 0x83, CHR 0x9D, CHR 0xE3, CHR 0x83, CHR 0xB3, CHR 0xE3, CHR 0x82, CHR 0xB9, CHR 0xE3,
     CHR 0x81, CHR 0x8C, CHR 0xE8, CHR 0xA6, CHR 0x8B, CHR 0xE3, CHR 0x81, CHR 0xA4, CHR 0xE3,
     CHR 0x81, CHR 0x8B, CHR 0xE3, CHR 0x82, CHR 0x8A, CHR 0xE3, CHR 0x81, CHR 0xBE, CHR 0xE3,
     CHR 0x81, CHR 0x9B, CHR 0xE3, CHR 0x82, CHR 0x93, CHR 0xE3, CHR 0x81, CHR 0xA7, CHR 0xE3,
     CHR 0x81, CHR 0x97, CHR 0xE3, CHR 0x81, CHR 0x9F]"

definition msg_not_image :: string where
  \<comment> \<open>line 157\<close>
  "msg_not_image = [CHR 0xE3, CHR 0x82, CHR 0xA2, CHR 0xE3, CHR 0x83, CHR 0x83, CHR 0xE3,
     CHR 0x83, CHR 0x97, CHR 0xE3, CHR 0x83, CHR 0xAD, CHR 0xE3, CHR 0x83, CHR 0xBC, CHR 0xE3,
     CHR 0x83, CHR 0x89, CHR 0xE3, CHR 0x81, CHR 0x95, CHR 0xE3, CHR 0x82, CHR 0x8C, CHR 0xE3,
     CHR 0x81, CHR 0x9F, CHR 0xE3, CHR 0x83, CHR 0x95, CHR 0xE3, CHR 0x82, CHR 0xA1, CHR 0xE3,
     CHR 0x82, CHR 0xA4, CHR 0xE3, CHR 0x83, CHR 0xAB, CHR 0xE3, CHR 0x81, CHR 0xAF, CHR 0xE7,
     CHR 0x94, CHR 0xBB, CHR 0xE5, CHR 0x83, CHR 0x8F, CHR 0xE3, CHR 0x81, CHR 0xA7, CHR 0xE3,
     CHR 0x81, CHR 0x82, CHR 0xE3, CHR 0x82, CHR 0x8B, CHR 0xE5, CHR 0xBF, CHR 0x85, CHR 0xE8,
     CHR 0xA6, CHR 0x81, CHR 0xE3, CHR 0x81, CHR 0x8C, CHR 0xE3, CHR 0x81, CHR 0x82, CHR 0xE3,
     CHR 0x82, CHR 0x8A, CHR 0xE3, CHR 0x81, CHR 0xBE, CHR 0xE3, CHR 0x81, CHR 0x99]"

definition msg_processing_error :: string where
  \<comment> \<open>line 175, the text before \<^verbatim>\<open>{str(e)}\<close>\<close>
  "msg_processing_error = [CHR 0xE7, CHR 0x94, CHR 0xBB, CHR 0xE5, CHR 0x83, CHR 0x8F, CHR 0xE5,
     CHR 0x87, CHR 0xA6, CHR 0xE7, CHR 0x90, CHR 0x86, CHR 0xE4, CHR 0xB8, CHR 0xAD, CHR 0xE3,
     CHR 0x81, CHR 0xAB, CHR 0xE3, CHR 0x82, CHR 0xA8, CHR 0xE3, CHR 0x83, CHR 0xA9, CHR 0xE3,
     CHR 0x83, CHR 0xBC, CHR 0xE3, CHR 0x81, CHR 0x8C, CHR 0xE7, CHR 0x99, CHR 0xBA, CHR 0xE7,
     CHR 0x94, CHR 0x9F, CHR 0xE3, CHR 0x81, CHR 0x97, CHR 0xE3, CHR 0x81, CHR 0xBE, CHR 0xE3,
     CHR 0x81, CHR 0x97, CHR 0xE3, CHR 0x81, CHR 0x9F] @ '': ''"

definition msg_none_has_no :: "string \<Rightarrow> string" where
  \<comment> \<open>the interpreter's message for an attribute looked up on \<^verbatim>\<open>None\<close>\<close>
  "msg_none_has_no attr =
     [CHR 0x27] @ ''NoneType'' @ [CHR 0x27] @ '' object has no attribute '' @
     [CHR 0x27] @ attr @ [CHR 0x27]"

section \<open>The Python operations the module uses\<close>

definition startswith :: "string \<Rightarrow> string \<Rightarrow> bool" where
  "startswith s p = (take (length p) s = p)"

text \<open>\<^verbatim>\<open>s.find(c)\<close> and \<^verbatim>\<open>s.rfind(c)\<close> for one character: an index, or -1.\<close>

fun find_chr :: "string \<Rightarrow> char \<Rightarrow> int" where
  "find_chr [] c = -1"
| "find_chr (x # xs) c =
     (if x = c then 0
      else (let i = find_chr xs c in if i = -1 then -1 else i + 1))"

definition rfind_chr :: "string \<Rightarrow> char \<Rightarrow> int" where
  "rfind_chr s c =
     (let i = find_chr (rev s) c in if i = -1 then -1 else int (length s) - 1 - i)"

text \<open>
  \<^verbatim>\<open>s[a:b]\<close> for indices that are not negative, the only ones line 107 can pass:
  empty when \<open>b \<le> a\<close>.
\<close>

definition slice :: "string \<Rightarrow> int \<Rightarrow> int \<Rightarrow> string" where
  "slice s a b = take (nat b - nat a) (drop (nat a) s)"

text \<open>
  \<^verbatim>\<open>repr(k)\<close> of a string with no quote and no escape in it, as the keys of the
  module are.
\<close>

definition repr_str :: "string \<Rightarrow> string" where
  "repr_str k = [CHR 0x27] @ k @ [CHR 0x27]"

text \<open>\<^verbatim>\<open>x[k]\<close> for a string key \<open>k\<close>.\<close>

fun getitem :: "json \<Rightarrow> string \<Rightarrow> exn + json" where
  "getitem (JObj kvs) k =
     (case map_of kvs k of None \<Rightarrow> Inl (KeyError (repr_str k)) | Some v \<Rightarrow> Inr v)"
| "getitem _ k = Inl TypeError"

text \<open>\<^verbatim>\<open>x[k] = v\<close> for a string key: an existing key keeps its place.\<close>

fun setitem :: "json \<Rightarrow> string \<Rightarrow> json \<Rightarrow> exn + json" where
  "setitem (JObj kvs) k v =
     Inr (JObj (if k \<in> fst ` set kvs then map (\<lambda>(k', v'). if k' = k then (k', v) else (k', v')) kvs
                else kvs @ [(k, v)]))"
| "setitem _ k v = Inl TypeError"

text \<open>\<^verbatim>\<open>x[0]\<close>: a dictionary of string keys has no key \<^verbatim>\<open>0\<close>.\<close>

fun getitem0 :: "json \<Rightarrow> exn + json" where
  "getitem0 (JArr []) = Inl IndexError"
| "getitem0 (JArr (x # xs)) = Inr x"
| "getitem0 (JStr []) = Inl IndexError"
| "getitem0 (JStr (c # cs)) = Inr (JStr [c])"
| "getitem0 (JObj kvs) = Inl (KeyError ''0'')"
| "getitem0 _ = Inl TypeError"

text \<open>The elements a \<^verbatim>\<open>for\<close> loop visits: a dictionary yields its keys, a string its characters.\<close>

fun py_iter :: "json \<Rightarrow> exn + json list" where
  "py_iter (JArr xs) = Inr xs"
| "py_iter (JObj kvs) = Inr (map (\<lambda>kv. JStr (fst kv)) kvs)"
| "py_iter (JStr s) = Inr (map (\<lambda>c. JStr [c]) s)"
| "py_iter _ = Inl TypeError"

fun truthy :: "json \<Rightarrow> bool" where
  "truthy JNull = False"
| "truthy (JBool b) = b"
| "truthy (JInt n) = (n \<noteq> 0)"
| "truthy (JFloat f) = (f \<noteq> Fin 0)"
| "truthy (JStr s) = (s \<noteq> [])"
| "truthy (JArr xs) = (xs \<noteq> [])"
| "truthy (JObj kvs) = (kvs \<noteq> [])"

text \<open>A value as an operand of \<^verbatim>\<open>+\<close> and \<^verbatim>\<open>/\<close> with a number: \<^verbatim>\<open>True\<close> counts as 1.\<close>

fun number :: "json \<Rightarrow> exn + num" where
  "number (JInt n) = Inr (PyInt n)"
| "number (JFloat f) = Inr (PyFloat f)"
| "number (JBool b) = Inr (PyInt (if b then 1 else 0))"
| "number _ = Inl TypeError"

definition confidence :: "json \<Rightarrow> exn + num" where
  \<comment> \<open>\<^verbatim>\<open>pred["confidence"]\<close>, read as a number\<close>
  "confidence pred =
     (case getitem pred ''confidence'' of Inl e \<Rightarrow> Inl e | Inr v \<Rightarrow> number v)"

text \<open>
  The built-in \<^verbatim>\<open>sum\<close> of numbers, from the int 0: exact on ints alone, the
  interpreter's float accumulation otherwise.
\<close>

fun the_int :: "num \<Rightarrow> int option" where
  "the_int (PyInt n) = Some n"
| "the_int (PyFloat f) = None"

definition py_sum :: "lib \<Rightarrow> num list \<Rightarrow> exn + num" where
  "py_sum L nums =
     (if list_all (\<lambda>x. the_int x \<noteq> None) nums
      then Inr (PyInt (sum_list (map (\<lambda>x. case the_int x of Some n \<Rightarrow> n | None \<Rightarrow> 0) nums)))
      else (case float_sum L nums of Inl e \<Rightarrow> Inl e | Inr f \<Rightarrow> Inr (PyFloat f)))"

text \<open>
  Line 110: \<^verbatim>\<open>sum(pred["confidence"] for pred in ...)\<close>. The generator is consumed
  one element at a time: \<open>seen\<close> holds the confidences added so far, and an element is
  read only if the sum of those before it did not raise.
\<close>

fun sum_confidence :: "lib \<Rightarrow> num list \<Rightarrow> json list \<Rightarrow> exn + num" where
  "sum_confidence L seen [] = py_sum L seen"
| "sum_confidence L seen (pred # preds) =
     (case confidence pred of
        Inl e \<Rightarrow> Inl e
      | Inr c \<Rightarrow>
          (case py_sum L (seen @ [c]) of
             Inl e \<Rightarrow> Inl e
           | Inr partial \<Rightarrow> sum_confidence L (seen @ [c]) preds))"

text \<open>Line 111: \<^verbatim>\<open>total_confidence > 0\<close>. A comparison is exact; NaN compares false.\<close>

fun gt0 :: "num \<Rightarrow> bool" where
  "gt0 (PyInt n) = (0 < n)"
| "gt0 (PyFloat (Fin x)) = (0 < x)"
| "gt0 (PyFloat PosInf) = True"
| "gt0 (PyFloat NegInf) = False"
| "gt0 (PyFloat NaN) = False"

text \<open>Line 113, its right-hand side: \<^verbatim>\<open>pred["confidence"] / total_confidence\<close>.\<close>

definition quotient :: "lib \<Rightarrow> num \<Rightarrow> json \<Rightarrow> exn + flt" where
  "quotient L total_confidence pred =
     (case confidence pred of
        Inl e \<Rightarrow> Inl e
      | Inr c \<Rightarrow> true_divide L c total_confidence)"

text \<open>Lines 112 and 113: the loop that divides each confidence in place.\<close>

fun normalize_all :: "lib \<Rightarrow> num \<Rightarrow> json list \<Rightarrow> exn + json list" where
  "normalize_all L total_confidence [] = Inr []"
| "normalize_all L total_confidence (pred # preds) =
     (case quotient L total_confidence pred of
        Inl e \<Rightarrow> Inl e
      | Inr q \<Rightarrow>
          (case setitem pred ''confidence'' (JFloat q) of
             Inl e \<Rightarrow> Inl e
           | Inr pred' \<Rightarrow>
               (case normalize_all L total_confidence preds of
                  Inl e \<Rightarrow> Inl e
                | Inr preds' \<Rightarrow> Inr (pred' # preds'))))"

text \<open>
  The loop acts on the value \<^verbatim>\<open>result["predictions"]\<close> itself when that is a list;
  the keys of a dictionary and the characters of a string are temporaries.
\<close>

definition normalize_in_place :: "lib \<Rightarrow> num \<Rightarrow> json \<Rightarrow> exn + json" where
  "normalize_in_place L total_confidence p =
     (case py_iter p of
        Inl e \<Rightarrow> Inl e
      | Inr preds \<Rightarrow>
          (case normalize_all L total_confidence preds of
             Inl e \<Rightarrow> Inl e
           | Inr preds' \<Rightarrow> Inr (case p of JArr _ \<Rightarrow> JArr preds' | _ \<Rightarrow> p)))"

text \<open>Lines 115 to 118: the dictionary \<^verbatim>\<open>predict\<close> returns.\<close>

definition prediction_result :: "json \<Rightarrow> exn + json" where
  "prediction_result p =
     (if truthy p then
        (case getitem0 p of
           Inl e \<Rightarrow> Inl e
         | Inr t \<Rightarrow> Inr (JObj [(''predictions'', p), (''top_prediction'', t)]))
      else Inr (JObj [(''predictions'', p), (''top_prediction'', JNull)]))"

text \<open>Lines 110 to 118, from the parsed reply \<open>result\<close>.\<close>

definition normalize_reply :: "lib \<Rightarrow> json \<Rightarrow> exn + json" where
  "normalize_reply L result =
     (case getitem result ''predictions'' of
        Inl e \<Rightarrow> Inl e
      | Inr p \<Rightarrow>
          (case py_iter p of
             Inl e \<Rightarrow> Inl e
           | Inr preds \<Rightarrow>
               (case sum_confidence L [] preds of
                  Inl e \<Rightarrow> Inl e
                | Inr total_confidence \<Rightarrow>
                    (if gt0 total_confidence then
                       (case normalize_in_place L total_confidence p of
                          Inl e \<Rightarrow> Inl e
                        | Inr p' \<Rightarrow> prediction_result p')
                     else prediction_result p))))"

section \<open>The adapter: \<^verbatim>\<open>BikeDetectionModel\<close>\<close>

text \<open>
  The state of the adapter: the two fields of the one \<^verbatim>\<open>bike_model\<close> object (the client
  is represented by the key it was built with), and what line 123 has printed so far. An
  entry \<open>e\<close> of \<open>printed\<close> stands for the line made of the prefix of line 123 and \<^verbatim>\<open>{e}\<close>.
\<close>

record state =
  client :: "string option"
  is_loaded :: bool
  printed :: "exn list"

definition init_state :: state where
  \<comment> \<open>lines 41 to 43 and 141\<close>
  "init_state = \<lparr>client = None, is_loaded = False, printed = []\<rparr>"

definition load_model :: "lib \<Rightarrow> state \<Rightarrow> exn + state" where
  "load_model L s =
     (case getenv_api_key L of
        None \<Rightarrow> Inl (ValueError msg_no_api_key)
      | Some api_key \<Rightarrow>
          if api_key = [] then Inl (ValueError msg_no_api_key)
          else Inr (s\<lparr>client := Some api_key, is_loaded := True\<rparr>))"

text \<open>
  Lines 65 to 108 and 119 to 120: the request, the search for the braces and the parse.
  \<open>end_idx\<close> is \<^verbatim>\<open>rfind\<close> plus one, so it is never -1, and a reply with no closing
  brace gives the empty slice to \<^verbatim>\<open>json.loads\<close>.
\<close>

definition parsed_reply :: "lib \<Rightarrow> string \<Rightarrow> string \<Rightarrow> exn + json" where
  "parsed_reply L api_key img_str =
     (case chat_completion L api_key (''data:image/jpeg;base64,'' @ img_str) of
        Inl e \<Rightarrow> Inl e
      | Inr None \<Rightarrow> Inl (AttributeError (msg_none_has_no ''find''))
      | Inr (Some content) \<Rightarrow>
          (let start_idx = find_chr content CHR ''{'';
               end_idx = rfind_chr content CHR ''}'' + 1
           in if start_idx \<noteq> -1 \<and> end_idx \<noteq> -1 then
                json_loads L (slice content start_idx end_idx)
              else Inl (ValueError msg_no_json)))"

text \<open>
  Lines 65 to 120, the body of the \<^verbatim>\<open>try\<close>: the value returned at line 115, or the
  exception raised in it.
\<close>

definition try_body :: "lib \<Rightarrow> string \<Rightarrow> string \<Rightarrow> exn + json" where
  "try_body L api_key img_str =
     (case parsed_reply L api_key img_str of
        Inl e \<Rightarrow> Inl e
      | Inr result \<Rightarrow> normalize_reply L result)"

text \<open>
  The module reads its global list \<^verbatim>\<open>BIKE_MODELS\<close> at lines 124, 132 and 150. The
  functions that read it take its value at the time of the call as their first argument
  \<open>labels\<close>; their names end in \<open>_at\<close>.
\<close>

text \<open>Lines 130 to 134: one dictionary per index, \<^verbatim>\<open>IndexError\<close> on an index out of range.\<close>

fun fallback_results_at :: "string list \<Rightarrow> flt list \<Rightarrow> nat list \<Rightarrow> exn + json list" where
  "fallback_results_at labels predictions [] = Inr []"
| "fallback_results_at labels predictions (idx # rest) =
     (if idx < length labels \<and> idx < length predictions then
        (case fallback_results_at labels predictions rest of
           Inl e \<Rightarrow> Inl e
         | Inr results \<Rightarrow>
             Inr (JObj [(''model'', JStr (labels ! idx)),
                        (''confidence'', JFloat (predictions ! idx))] # results))
      else Inl IndexError)"

text \<open>
  Lines 124 to 127. The division of line 125 is numpy's: where the drawn scores sum
  to 0 it gives NaN, with a warning. \<^verbatim>\<open>[-3:]\<close> keeps the last three entries (all of
  them when there are fewer) and \<^verbatim>\<open>[::-1]\<close> reverses them.
\<close>

definition normalized_scores_at :: "string list \<Rightarrow> lib \<Rightarrow> flt list" where
  "normalized_scores_at labels L =
     (let predictions = random_random L (length labels)
      in map (\<lambda>x. np_divide L x (np_sum L predictions)) predictions)"

definition top_indices_at :: "string list \<Rightarrow> lib \<Rightarrow> nat list" where
  "top_indices_at labels L =
     (let idx = argsort L (normalized_scores_at labels L)
      in rev (drop (length idx - 3) idx))"

text \<open>Lines 124 to 139, the handler of the \<^verbatim>\<open>try\<close>, after the print.\<close>

definition fallback_at :: "string list \<Rightarrow> lib \<Rightarrow> exn + json" where
  "fallback_at labels L =
     (case fallback_results_at labels (normalized_scores_at labels L) (top_indices_at labels L) of
        Inl e \<Rightarrow> Inl e
      | Inr results \<Rightarrow>
          Inr (JObj [(''predictions'', JArr results),
                     (''top_prediction'', (case results of [] \<Rightarrow> JNull | r # _ \<Rightarrow> r))]))"

text \<open>Lines 54 to 58: the lazy initialisation, and the client the call will use.\<close>

definition ensure_loaded :: "lib \<Rightarrow> state \<Rightarrow> (exn + string) \<times> state" where
  "ensure_loaded L s =
     (case (if \<not> is_loaded s then load_model L s else Inr s) of
        Inl e \<Rightarrow> (Inl e, s)
      | Inr s1 \<Rightarrow>
          (case client s1 of
             None \<Rightarrow> (Inl (ValueError msg_no_client), s1)
           | Some api_key \<Rightarrow> (Inr api_key, s1)))"

text \<open>Lines 60 to 62: the image as JPEG, then as base64 text.\<close>

definition encode_image :: "lib \<Rightarrow> image \<Rightarrow> exn + string" where
  "encode_image L img =
     (case save_jpeg L img of
        Inl e \<Rightarrow> Inl e
      | Inr buffered \<Rightarrow> Inr (b64encode L buffered))"

text \<open>
  \<^verbatim>\<open>predict\<close>. Lines 54 to 62 stand before the \<^verbatim>\<open>try\<close>: what they raise leaves
  \<^verbatim>\<open>predict\<close>. What the body of the \<^verbatim>\<open>try\<close> raises is printed and replaced by the
  fallback.
\<close>

definition predict_at :: "string list \<Rightarrow> lib \<Rightarrow> state \<Rightarrow> image \<Rightarrow> (exn + json) \<times> state" where
  "predict_at labels L s img =
     (case ensure_loaded L s of
        (Inl e, s1) \<Rightarrow> (Inl e, s1)
      | (Inr api_key, s1) \<Rightarrow>
          (case encode_image L img of
             Inl e \<Rightarrow> (Inl e, s1)
           | Inr img_str \<Rightarrow>
               (case try_body L api_key img_str of
                  Inr r \<Rightarrow> (Inr r, s1)
                | Inl e \<Rightarrow> (fallback_at labels L, s1\<lparr>printed := printed s1 @ [e]\<rparr>))))"

section \<open>The HTTP handlers\<close>

definition get_available_models_at :: "string list \<Rightarrow> json" where
  "get_available_models_at labels = JObj [(''models'', JArr (map JStr labels))]"

text \<open>Lines 160 to 163: decode the payload, convert to RGB unless it is RGB already.\<close>

definition decode_image :: "lib \<Rightarrow> bytes \<Rightarrow> exn + image" where
  "decode_image L b =
     (case image_open L b of
        Inl e \<Rightarrow> Inl e
      | Inr img \<Rightarrow> if mode img \<noteq> ''RGB'' then convert_rgb L img else Inr img)"

text \<open>Lines 156 to 172, the body of the \<^verbatim>\<open>try\<close> of the handler.\<close>

definition detect_try_at ::
  "string list \<Rightarrow> lib \<Rightarrow> state \<Rightarrow> upload_file \<Rightarrow> (exn + json) \<times> state" where
  "detect_try_at labels L s file =
     (case content_type file of
        None \<Rightarrow> (Inl (AttributeError (msg_none_has_no ''startswith'')), s)
      | Some ct \<Rightarrow>
          if \<not> startswith ct ''image/'' then (Inl (HTTPException 400 msg_not_image), s)
          else
            (case decode_image L (contents file) of
               Inl e \<Rightarrow> (Inl e, s)
             | Inr img \<Rightarrow>
                 (case predict_at labels L s img of
                    (Inl e, s') \<Rightarrow> (Inl e, s')
                  | (Inr result, s') \<Rightarrow>
                      (case getitem result ''predictions'' of
                         Inl e \<Rightarrow> (Inl e, s')
                       | Inr p \<Rightarrow>
                           (case getitem result ''top_prediction'' of
                              Inl e \<Rightarrow> (Inl e, s')
                            | Inr t \<Rightarrow>
                                (Inr (JObj [(''success'', JBool True),
                                            (''filename'', (case filename file of
                                                              None \<Rightarrow> JNull
                                                            | Some n \<Rightarrow> JStr n)),
                                            (''predictions'', p),
                                            (''top_prediction'', t)]), s'))))))"

text \<open>
  \<^verbatim>\<open>detect_bike_model\<close>: the handler at line 174 catches every \<^verbatim>\<open>Exception\<close> of the body,
  the \<^verbatim>\<open>HTTPException\<close> of line 157 among them, and raises the status 500.
\<close>

definition detect_bike_model_at ::
  "string list \<Rightarrow> lib \<Rightarrow> state \<Rightarrow> upload_file \<Rightarrow> (exn + json) \<times> state" where
  "detect_bike_model_at labels L s file =
     (case detect_try_at labels L s file of
        (Inl e, s') \<Rightarrow> (Inl (HTTPException 500 (msg_processing_error @ exn_str e)), s')
      | (Inr body, s') \<Rightarrow> (Inr body, s'))"

text \<open>
  The functions at the value the global has when the module is loaded, which no
  operation of the module changes (see the claim on the model list).
\<close>

definition normalized_scores :: "lib \<Rightarrow> flt list" where
  "normalized_scores = normalized_scores_at BIKE_MODELS"

definition top_indices :: "lib \<Rightarrow> nat list" where
  "top_indices = top_indices_at BIKE_MODELS"

definition fallback :: "lib \<Rightarrow> exn + json" where
  "fallback = fallback_at BIKE_MODELS"

definition predict :: "lib \<Rightarrow> state \<Rightarrow> image \<Rightarrow> (exn + json) \<times> state" where
  "predict = predict_at BIKE_MODELS"

definition get_available_models :: json where
  "get_available_models = get_available_models_at BIKE_MODELS"

definition detect_bike_model :: "lib \<Rightarrow> state \<Rightarrow> upload_file \<Rightarrow> (exn + json) \<times> state" where
  "detect_bike_model = detect_bike_model_at BIKE_MODELS"

text \<open>
  The status the framework answers with. A raised \<^verbatim>\<open>HTTPException\<close> gives its status,
  any other exception 500. A returned dictionary is rendered by
  \<^verbatim>\<open>json.dumps(..., allow_nan=False)\<close>, which raises on a NaN or an infinity, outside
  the handler: the answer is 200 when every float of the dictionary is finite, 500
  otherwise.
\<close>

fun finite_json :: "json \<Rightarrow> bool" where
  "finite_json (JFloat f) = is_fin f"
| "finite_json (JArr xs) = (\<forall>x\<in>set xs. finite_json x)"
| "finite_json (JObj kvs) = (\<forall>kv\<in>set kvs. finite_json (snd kv))"
| "finite_json _ = True"

fun status_code :: "exn + json \<Rightarrow> nat" where
  "status_code (Inr body) = (if finite_json body then 200 else 500)"
| "status_code (Inl (HTTPException c d)) = c"
| "status_code (Inl e) = 500"

section \<open>The module and its requests\<close>

text \<open>
  What lives as long as the process: the global list \<^verbatim>\<open>BIKE_MODELS\<close> (a Python list, which
  a statement could change in place) and the global \<^verbatim>\<open>bike_model\<close>. A request is served
  by its handler on the module as it is at that time, and leaves the module to the next.
\<close>

record module_state =
  label_list :: "string list"
  bike_model :: state

definition init_module :: module_state where
  \<comment> \<open>lines 27 to 38 and 141\<close>
  "init_module = \<lparr>label_list = BIKE_MODELS, bike_model = init_state\<rparr>"

definition msg_root_healthz :: string where
  \<comment> \<open>line 183\<close>
  "msg_root_healthz =
     [CHR 0xE3, CHR 0x83, CHR 0x98, CHR 0xE3, CHR 0x83, CHR 0xAB, CHR 0xE3, CHR 0x82, CHR
     0xB9, CHR 0xE3, CHR 0x83, CHR 0x81, CHR 0xE3, CHR 0x82, CHR 0xA7, CHR 0xE3, CHR 0x83,
     CHR 0x83, CHR 0xE3, CHR 0x82, CHR 0xAF]"

definition msg_root_models :: string where
  \<comment> \<open>line 184\<close>
  "msg_root_models =
     [CHR 0xE5, CHR 0x88, CHR 0xA9, CHR 0xE7, CHR 0x94, CHR 0xA8, CHR 0xE5, CHR 0x8F, CHR
     0xAF, CHR 0xE8, CHR 0x83, CHR 0xBD, CHR 0xE3, CHR 0x81, CHR 0xAA, CHR 0xE3, CHR 0x83,
     CHR 0x90, CHR 0xE3, CHR 0x82, CHR 0xA4, CHR 0xE3, CHR 0x82, CHR 0xAF, CHR 0xE3, CHR
     0x83, CHR 0xA2, CHR 0xE3, CHR 0x83, CHR 0x87, CHR 0xE3, CHR 0x83, CHR 0xAB, CHR 0xE4,
     CHR 0xB8, CHR 0x80, CHR 0xE8, CHR 0xA6, CHR 0xA7]"

definition msg_root_detect :: string where
  \<comment> \<open>line 185\<close>
  "msg_root_detect =
     [CHR 0xE3, CHR 0x83, CHR 0x90, CHR 0xE3, CHR 0x82, CHR 0xA4, CHR 0xE3, CHR 0x82, CHR
     0xAF, CHR 0xE3, CHR 0x83, CHR 0xA2, CHR 0xE3, CHR 0x83, CHR 0x87, CHR 0xE3, CHR 0x83,
     CHR 0xAB, CHR 0xE6, CHR 0xA4, CHR 0x9C, CHR 0xE5, CHR 0x87, CHR 0xBA, CHR 0xEF, CHR
     0xBC, CHR 0x88] @ ''POST'' @ [CHR 0xE3, CHR 0x80, CHR 0x81, CHR 0xE7, CHR 0x94, CHR
     0xBB, CHR 0xE5, CHR 0x83, CHR 0x8F, CHR 0xE3, CHR 0x83, CHR 0x95, CHR 0xE3, CHR 0x82,
     CHR 0xA1, CHR 0xE3, CHR 0x82, CHR 0xA4, CHR 0xE3, CHR 0x83, CHR 0xAB, CHR 0xE5, CHR
     0xBF, CHR 0x85, CHR 0xE9, CHR 0xA0, CHR 0x88, CHR 0xEF, CHR 0xBC, CHR 0x89]"

definition healthz :: json where
  "healthz = JObj [(''status'', JStr ''ok'')]"

definition root :: json where
  "root =
     JObj [(''message'', JStr ''Bike Model Detection API''),
           (''version'', JStr ''1.0.0''),
           (''endpoints'',
            JObj [(''/healthz'', JStr msg_root_healthz),
                  (''/models'', JStr msg_root_models),
                  (''/detect'', JStr msg_root_detect)])]"

datatype request =
    GetHealthz
  | GetModels
  | GetRoot
  | PostDetect lib upload_file

fun handle :: "module_state \<Rightarrow> request \<Rightarrow> (exn + json) \<times> module_state" where
  "handle g GetHealthz = (Inr healthz, g)"
| "handle g GetModels = (Inr (get_available_models_at (label_list g)), g)"
| "handle g GetRoot = (Inr root, g)"
| "handle g (PostDetect L file) =
     (case detect_bike_model_at (label_list g) L (bike_model g) file of
        (r, s') \<Rightarrow> (r, g\<lparr>bike_model := s'\<rparr>))"

text \<open>The module after a sequence of requests, served one after the other.\<close>

fun serve :: "module_state \<Rightarrow> request list \<Rightarrow> module_state" where
  "serve g [] = g"
| "serve g (req # reqs) = serve (snd (handle g req)) reqs"

section \<open>Deterministic stubs of the library\<close>

text \<open>
  A stub of the library boundary for concrete runs: the key is \<open>env_key\<close>, an empty
  payload fails to decode and any other decodes to an RGB image, the provider answers
  \<open>reply\<close>, \<^verbatim>\<open>json.loads\<close> parses the one text \<open>txt\<close> (to \<open>v\<close>) and rejects every other,
  the scores drawn are the first entries of \<open>stub_scores\<close>, and \<^verbatim>\<open>argsort\<close> is the
  stable sort of the indices in numpy's order.

  The stub computes sums and quotients of finite values exactly and gives NaN to 0/0,
  as the hardware does. The concrete runs use it only where every value computed is a
  double, so that it computes what the interpreter and numpy compute: on small ints,
  on powers of two, and on 0/0.
\<close>

fun fin_val :: "flt \<Rightarrow> real" where
  "fin_val (Fin x) = x"
| "fin_val _ = 0"

fun num_fin :: "num \<Rightarrow> bool" where
  "num_fin (PyInt n) = True"
| "num_fin (PyFloat f) = is_fin f"

fun num_val :: "num \<Rightarrow> real" where
  "num_val (PyInt n) = real_of_int n"
| "num_val (PyFloat f) = fin_val f"

definition stub_true_divide :: "num \<Rightarrow> num \<Rightarrow> exn + flt" where
  "stub_true_divide a b =
     (if num_fin a \<and> num_fin b then
        (if num_val b = 0 then Inl (ZeroDivisionError ''division by zero'')
         else Inr (Fin (num_val a / num_val b)))
      else Inr NaN)"

definition stub_float_sum :: "num list \<Rightarrow> exn + flt" where
  "stub_float_sum nums =
     (if list_all num_fin nums then Inr (Fin (sum_list (map num_val nums))) else Inr NaN)"

definition stub_np_sum :: "flt list \<Rightarrow> flt" where
  "stub_np_sum fs = (if list_all is_fin fs then Fin (sum_list (map fin_val fs)) else NaN)"

definition stub_np_divide :: "flt \<Rightarrow> flt \<Rightarrow> flt" where
  "stub_np_divide a b =
     (if is_fin a \<and> is_fin b then
        (if fin_val b \<noteq> 0 then Fin (fin_val a / fin_val b)
         else if fin_val a = 0 then NaN
         else if 0 < fin_val a then PosInf else NegInf)
      else NaN)"

definition stable_argsort :: "flt list \<Rightarrow> nat list" where
  "stable_argsort ps = sort_key (\<lambda>i. flt_key (ps ! i)) [0..<length ps]"

definition reply_text :: string where
  \<open>reply_text = ''{"predictions": [{"model": "Honda CBR600RR", "confidence": 2}, {"model": "Yamaha YZF-R1", "confidence": 1}, {"model": "Ducati Panigale V4", "confidence": 1}]}''\<close>

definition reply_json :: json where
  "reply_json =
     JObj [(''predictions'',
            JArr [JObj [(''model'', JStr ''Honda CBR600RR''), (''confidence'', JInt 2)],
                  JObj [(''model'', JStr ''Yamaha YZF-R1''), (''confidence'', JInt 1)],
                  JObj [(''model'', JStr ''Ducati Panigale V4''), (''confidence'', JInt 1)]])]"

definition stub_json_loads :: "string \<Rightarrow> json \<Rightarrow> string \<Rightarrow> exn + json" where
  "stub_json_loads txt v s = (if s = txt then Inr v else Inl (LibraryError ''Expecting value''))"

definition stub_scores :: "flt list" where
  "stub_scores =
     [Fin (1/2), Fin (1/4), Fin (1/8), Fin (1/16), Fin (1/32), Fin (1/64), Fin (1/128),
      Fin (1/256), Fin (1/512), Fin (1/512)]"

definition stub_lib :: "string option \<Rightarrow> (exn + string option) \<Rightarrow> string \<Rightarrow> json \<Rightarrow> lib" where
  "stub_lib env_key reply txt v =
     \<lparr>getenv_api_key = env_key,
      image_open = (\<lambda>b. if b = [] then Inl (LibraryError ''cannot identify image file'')
                         else Inr \<lparr>mode = ''RGB'', raster = b\<rparr>),
      convert_rgb = (\<lambda>i. Inr (i\<lparr>mode := ''RGB''\<rparr>)),
      save_jpeg = (\<lambda>i. Inr (raster i)),
      b64encode = (\<lambda>b. b),
      chat_completion = (\<lambda>k url. reply),
      json_loads = stub_json_loads txt v,
      float_sum = stub_float_sum,
      true_divide = stub_true_divide,
      random_random = (\<lambda>n. take n stub_scores),
      np_sum = stub_np_sum,
      np_divide = stub_np_divide,
      argsort = stable_argsort\<rparr>"

text \<open>The same stub at the draw of ten zeros.\<close>

definition zero_draw_lib :: "string option \<Rightarrow> (exn + string option) \<Rightarrow> string \<Rightarrow> json \<Rightarrow> lib" where
  "zero_draw_lib env_key reply txt v =
     (stub_lib env_key reply txt v)\<lparr>random_random := (\<lambda>n. replicate n (Fin 0))\<rparr>"

definition stub_file :: "string \<Rightarrow> bytes \<Rightarrow> upload_file" where
  "stub_file ct b = \<lparr>content_type = Some ct, filename = Some ''bike.jpg'', contents = b\<rparr>"

text \<open>
  What the claims call the top of a prediction list: its first element, and \<^verbatim>\<open>None\<close>
  for the empty list and for anything that is not a list.
\<close>

fun first_or_none :: "json \<Rightarrow> json" where
  "first_or_none (JArr (x # xs)) = x"
| "first_or_none _ = JNull"

definition empty_reply_text :: string where
  \<open>empty_reply_text = ''{"predictions": []}''\<close>

definition empty_reply_json :: json where
  "empty_reply_json = JObj [(''predictions'', JArr [])]"

definition single_reply_text :: string where
  \<open>single_reply_text = ''{"predictions": [{"model": "Honda CBR600RR", "confidence": 1}]}''\<close>

definition single_reply_json :: json where
  "single_reply_json =
     JObj [(''predictions'',
            JArr [JObj [(''model'', JStr ''Honda CBR600RR''), (''confidence'', JInt 1)]])]"

section \<open>Lemmas on the library contracts and the two paths of the adapter\<close>

lemma show_nat_400: "show_nat 400 = ''400''"
  by code_simp

lemma length_BIKE_MODELS: "length BIKE_MODELS = 10"
  by (simp add: BIKE_MODELS_def)




text \<open>The functions at the loaded value of the global, unfolded one level.\<close>

lemma normalized_scores_unfold:
  "normalized_scores L =
     map (\<lambda>x. np_divide L x (np_sum L (random_random L (length BIKE_MODELS))))
       (random_random L (length BIKE_MODELS))"
  by (simp add: normalized_scores_def normalized_scores_at_def Let_def)

lemma top_indices_unfold:
  "top_indices L =
     rev (drop (length (argsort L (normalized_scores L)) - 3) (argsort L (normalized_scores L)))"
  by (simp add: top_indices_def top_indices_at_def normalized_scores_def Let_def)

lemma fallback_unfold:
  "fallback L =
     (case fallback_results_at BIKE_MODELS (normalized_scores L) (top_indices L) of
        Inl e \<Rightarrow> Inl e
      | Inr results \<Rightarrow>
          Inr (JObj [(''predictions'', JArr results),
                     (''top_prediction'', (case results of [] \<Rightarrow> JNull | r # _ \<Rightarrow> r))]))"
  unfolding fallback_def fallback_at_def normalized_scores_def top_indices_def by (rule refl)

lemma predict_unfold:
  "predict L s img =
     (case ensure_loaded L s of
        (Inl e, s1) \<Rightarrow> (Inl e, s1)
      | (Inr api_key, s1) \<Rightarrow>
          (case encode_image L img of
             Inl e \<Rightarrow> (Inl e, s1)
           | Inr img_str \<Rightarrow>
               (case try_body L api_key img_str of
                  Inr r \<Rightarrow> (Inr r, s1)
                | Inl e \<Rightarrow> (fallback L, s1\<lparr>printed := printed s1 @ [e]\<rparr>))))"
  unfolding predict_def predict_at_def fallback_def by (rule refl)

lemma detect_unfold:
  "detect_bike_model L s file =
     (case (case content_type file of
        None \<Rightarrow> (Inl (AttributeError (msg_none_has_no ''startswith'')), s)
      | Some ct \<Rightarrow>
          if \<not> startswith ct ''image/'' then (Inl (HTTPException 400 msg_not_image), s)
          else
            (case decode_image L (contents file) of
               Inl e \<Rightarrow> (Inl e, s)
             | Inr img \<Rightarrow>
                 (case predict L s img of
                    (Inl e, s') \<Rightarrow> (Inl e, s')
                  | (Inr result, s') \<Rightarrow>
                      (case getitem result ''predictions'' of
                         Inl e \<Rightarrow> (Inl e, s')
                       | Inr p \<Rightarrow>
                           (case getitem result ''top_prediction'' of
                              Inl e \<Rightarrow> (Inl e, s')
                            | Inr t \<Rightarrow>
                                (Inr (JObj [(''success'', JBool True),
                                            (''filename'', (case filename file of
                                                              None \<Rightarrow> JNull
                                                            | Some n \<Rightarrow> JStr n)),
                                            (''predictions'', p),
                                            (''top_prediction'', t)]), s')))))) of
        (Inl e, s') \<Rightarrow> (Inl (HTTPException 500 (msg_processing_error @ exn_str e)), s')
      | (Inr body, s') \<Rightarrow> (Inr body, s'))"
  unfolding detect_bike_model_def detect_bike_model_at_def detect_try_at_def predict_def
  by (rule refl)

lemma argsort_ok_mset: "argsort_ok ps idx \<Longrightarrow> mset idx = mset [0..<length ps]"
  by (metis argsort_ok_def mset_sort)

lemma argsort_ok_length: "argsort_ok ps idx \<Longrightarrow> length idx = length ps"
  by (metis argsort_ok_mset length_upt minus_nat.diff_0 size_mset)

lemma argsort_ok_set: "argsort_ok ps idx \<Longrightarrow> set idx = {0..<length ps}"
  by (metis argsort_ok_mset set_mset_mset set_upt)

lemma argsort_ok_distinct: "argsort_ok ps idx \<Longrightarrow> distinct idx"
  by (metis argsort_ok_mset distinct_upt mset_eq_imp_distinct_iff)

lemma drop_last_three:
  assumes "length xs = 10"
  shows "rev (drop (length xs - 3) xs) = [xs ! 9, xs ! 8, xs ! 7]"
proof -
  have "drop 7 xs = xs ! 7 # drop 8 xs" "drop 8 xs = xs ! 8 # drop 9 xs"
       "drop 9 xs = xs ! 9 # drop 10 xs"
    using assms by (simp_all add: Cons_nth_drop_Suc [symmetric])
  then show ?thesis using assms by simp
qed

lemma length_normalized_scores:
  "random_ok (length BIKE_MODELS) (random_random L (length BIKE_MODELS)) \<Longrightarrow>
   length (normalized_scores L) = 10"
  by (simp add: normalized_scores_unfold random_ok_def length_BIKE_MODELS)






lemma top_three:
  assumes ok: "argsort_ok ps idx" and len: "length ps = 10"
  shows "\<exists>i1 i2 i3.
           rev (drop (length idx - 3) idx) = [i1, i2, i3]
         \<and> distinct [i1, i2, i3] \<and> i1 < 10 \<and> i2 < 10 \<and> i3 < 10
         \<and> flt_le (ps ! i3) (ps ! i2) \<and> flt_le (ps ! i2) (ps ! i1)
         \<and> (\<forall>m<10. m \<notin> {i1, i2, i3} \<longrightarrow> flt_le (ps ! m) (ps ! i3))"
proof -
  have l: "length idx = 10" using argsort_ok_length [OF ok] len by simp
  have d: "distinct idx" by (rule argsort_ok_distinct [OF ok])
  have s: "set idx = {0..<10}" using argsort_ok_set [OF ok] len by simp
  have srt: "sorted (map (\<lambda>i. flt_key (ps ! i)) idx)" using ok by (simp add: argsort_ok_def)
  have mono: "flt_le (ps ! (idx ! i)) (ps ! (idx ! j))" if "i \<le> j" "j < 10" for i j
    using sorted_nth_mono [OF srt, of i j] that l by (simp add: flt_le_def)
  have r: "rev (drop (length idx - 3) idx) = [idx ! 9, idx ! 8, idx ! 7]"
    by (rule drop_last_three [OF l])
  have d3: "drop 7 idx = [idx ! 7, idx ! 8, idx ! 9]"
  proof -
    have "drop 7 idx = idx ! 7 # drop 8 idx" "drop 8 idx = idx ! 8 # drop 9 idx"
         "drop 9 idx = idx ! 9 # drop 10 idx"
      using l by (simp_all add: Cons_nth_drop_Suc [symmetric])
    then show ?thesis using l by simp
  qed
  have split: "idx = take 7 idx @ [idx ! 7, idx ! 8, idx ! 9]"
    using d3 by (metis append_take_drop_id)
  have dist3: "distinct [idx ! 9, idx ! 8, idx ! 7]"
    using d l by (simp add: nth_eq_iff_index_eq)
  have mem: "idx ! j \<in> set idx" if "j < 10" for j
    using that l by simp
  have bounds: "idx ! 9 < 10" "idx ! 8 < 10" "idx ! 7 < 10"
    using mem [of 9] mem [of 8] mem [of 7] s by simp_all
  have others_set: "set (take 7 idx) = {0..<10} - {idx ! 9, idx ! 8, idx ! 7}"
  proof -
    have "set (take 7 idx) \<union> {idx ! 7, idx ! 8, idx ! 9} = {0..<10}"
    proof -
      have "set (take 7 idx @ [idx ! 7, idx ! 8, idx ! 9]) = {0..<10}"
        using split s by simp
      then show ?thesis by simp
    qed
    moreover have "set (take 7 idx) \<inter> {idx ! 7, idx ! 8, idx ! 9} = {}"
    proof -
      have "distinct (take 7 idx @ [idx ! 7, idx ! 8, idx ! 9])"
        using split d by simp
      then show ?thesis by auto
    qed
    ultimately show ?thesis by auto
  qed
  have low: "flt_le (ps ! m) (ps ! (idx ! 7))" if "m < 10" "m \<notin> {idx ! 9, idx ! 8, idx ! 7}" for m
  proof -
    from that others_set have "m \<in> set (take 7 idx)" by auto
    then obtain j where j: "j < 7" "take 7 idx ! j = m"
      using l by (auto simp: in_set_conv_nth)
    then have "idx ! j = m" by simp
    with mono [of j 7] j(1) show ?thesis by auto
  qed
  show ?thesis
    using r dist3 bounds mono [of 7 8] mono [of 8 9] low
    by (intro exI [of _ "idx ! 9"] exI [of _ "idx ! 8"] exI [of _ "idx ! 7"]) simp
qed

lemma fallback_results_three:
  assumes "i1 < 10" "i2 < 10" "i3 < 10" "length ps = 10"
  shows "fallback_results_at BIKE_MODELS ps [i1, i2, i3] =
           Inr [JObj [(''model'', JStr (BIKE_MODELS ! i1)), (''confidence'', JFloat (ps ! i1))],
                JObj [(''model'', JStr (BIKE_MODELS ! i2)), (''confidence'', JFloat (ps ! i2))],
                JObj [(''model'', JStr (BIKE_MODELS ! i3)), (''confidence'', JFloat (ps ! i3))]]"
  using assms by (simp add: length_BIKE_MODELS)

lemma fallback_shape:
  assumes r: "random_ok (length BIKE_MODELS) (random_random L (length BIKE_MODELS))"
    and a: "argsort_ok (normalized_scores L) (argsort L (normalized_scores L))"
  shows "\<exists>i1 i2 i3.
           fallback L =
             Inr (JObj [(''predictions'',
                         JArr [JObj [(''model'', JStr (BIKE_MODELS ! i1)),
                                     (''confidence'', JFloat (normalized_scores L ! i1))],
                               JObj [(''model'', JStr (BIKE_MODELS ! i2)),
                                     (''confidence'', JFloat (normalized_scores L ! i2))],
                               JObj [(''model'', JStr (BIKE_MODELS ! i3)),
                                     (''confidence'', JFloat (normalized_scores L ! i3))]]),
                        (''top_prediction'',
                         JObj [(''model'', JStr (BIKE_MODELS ! i1)),
                               (''confidence'', JFloat (normalized_scores L ! i1))])])
         \<and> distinct [i1, i2, i3] \<and> i1 < 10 \<and> i2 < 10 \<and> i3 < 10
         \<and> flt_le (normalized_scores L ! i3) (normalized_scores L ! i2)
         \<and> flt_le (normalized_scores L ! i2) (normalized_scores L ! i1)
         \<and> (\<forall>m<10. m \<notin> {i1, i2, i3} \<longrightarrow>
               flt_le (normalized_scores L ! m) (normalized_scores L ! i3))"
proof -
  have len: "length (normalized_scores L) = 10"
    by (rule length_normalized_scores [OF r])
  from top_three [OF a len] obtain i1 i2 i3 where
    t: "rev (drop (length (argsort L (normalized_scores L)) - 3) (argsort L (normalized_scores L)))
          = [i1, i2, i3]"
    and p: "distinct [i1, i2, i3]" "i1 < 10" "i2 < 10" "i3 < 10"
      "flt_le (normalized_scores L ! i3) (normalized_scores L ! i2)"
      "flt_le (normalized_scores L ! i2) (normalized_scores L ! i1)"
      "\<forall>m<10. m \<notin> {i1, i2, i3} \<longrightarrow>
          flt_le (normalized_scores L ! m) (normalized_scores L ! i3)"
    by (elim exE conjE) (rule that; assumption)
  have ti: "top_indices L = [i1, i2, i3]"
    using t by (simp add: top_indices_unfold)
  have "fallback L =
             Inr (JObj [(''predictions'',
                         JArr [JObj [(''model'', JStr (BIKE_MODELS ! i1)),
                                     (''confidence'', JFloat (normalized_scores L ! i1))],
                               JObj [(''model'', JStr (BIKE_MODELS ! i2)),
                                     (''confidence'', JFloat (normalized_scores L ! i2))],
                               JObj [(''model'', JStr (BIKE_MODELS ! i3)),
                                     (''confidence'', JFloat (normalized_scores L ! i3))]]),
                        (''top_prediction'',
                         JObj [(''model'', JStr (BIKE_MODELS ! i1)),
                               (''confidence'', JFloat (normalized_scores L ! i1))])])"
    unfolding fallback_unfold ti fallback_results_three [OF p(2,3,4) len] by simp
  with p show ?thesis
    by (intro exI [of _ i1] exI [of _ i2] exI [of _ i3] conjI) assumption+
qed

lemma detect_of_predict_result:
  assumes "content_type file = Some ct" and "startswith ct ''image/''"
    and "decode_image L (contents file) = Inr img"
    and "predict L s img = (Inr (JObj [(''predictions'', p), (''top_prediction'', t)]), s')"
  shows "detect_bike_model L s file =
           (Inr (JObj [(''success'', JBool True),
                       (''filename'', (case filename file of None \<Rightarrow> JNull | Some n \<Rightarrow> JStr n)),
                       (''predictions'', p),
                       (''top_prediction'', t)]), s')"
  using assms by (simp add: detect_unfold)

lemma detect_of_predict_error:
  assumes "content_type file = Some ct" and "startswith ct ''image/''"
    and "decode_image L (contents file) = Inr img"
    and "predict L s img = (Inl e, s')"
  shows "detect_bike_model L s file =
           (Inl (HTTPException 500 (msg_processing_error @ exn_str e)), s')"
  using assms by (simp add: detect_unfold)

lemma predict_of_try_body:
  assumes "ensure_loaded L s = (Inr k, s1)" and "encode_image L img = Inr i"
  shows "predict L s img =
           (case try_body L k i of
              Inr r \<Rightarrow> (Inr r, s1)
            | Inl e \<Rightarrow> (fallback L, s1\<lparr>printed := printed s1 @ [e]\<rparr>))"
  using assms by (simp add: predict_unfold)

lemma ensure_loaded_no_key:
  assumes "\<not> is_loaded s" and "getenv_api_key L = None \<or> getenv_api_key L = Some []"
  shows "ensure_loaded L s = (Inl (ValueError msg_no_api_key), s)"
  using assms by (auto simp: ensure_loaded_def load_model_def)

lemma predict_no_key:
  assumes "\<not> is_loaded s" and "getenv_api_key L = None \<or> getenv_api_key L = Some []"
  shows "predict L s img = (Inl (ValueError msg_no_api_key), s)"
  using ensure_loaded_no_key [OF assms] by (simp add: predict_unfold)

lemma ensure_loaded_printed:
  assumes "ensure_loaded L s = (x, s1)"
  shows "printed s1 = printed s"
  using assms
  by (auto simp: ensure_loaded_def load_model_def split: if_splits option.splits sum.splits)

lemma first_or_none_JArr:
  "(case preds of [] \<Rightarrow> JNull | x # _ \<Rightarrow> x) = first_or_none (JArr preds)"
  by (cases preds) simp_all

lemma fallback_result_shape:
  assumes "fallback L = Inr r"
  shows "\<exists>results. r = JObj [(''predictions'', JArr results),
                               (''top_prediction'', first_or_none (JArr results))]"
  using assms by (auto simp: fallback_unfold first_or_none_JArr split: sum.splits)

lemma prediction_result_JArr:
  "prediction_result (JArr preds) =
     Inr (JObj [(''predictions'', JArr preds),
                (''top_prediction'', (case preds of [] \<Rightarrow> JNull | x # _ \<Rightarrow> x))])"
  by (cases preds) (simp_all add: prediction_result_def)

lemma py_sum_Nil: "py_sum L [] = Inr (PyInt 0)"
  by (simp add: py_sum_def)

lemma sum_confidence_iterable:
  assumes "py_iter p = Inr preds" and "sum_confidence L [] preds = Inr t"
  shows "(\<exists>xs. p = JArr xs) \<or> (p = JObj [] \<and> t = PyInt 0) \<or> (p = JStr [] \<and> t = PyInt 0)"
proof (cases p)
  case (JObj kvs)
  then show ?thesis using assms by (cases kvs) (auto simp: confidence_def py_sum_Nil)
next
  case (JStr str)
  then show ?thesis using assms by (cases str) (auto simp: confidence_def py_sum_Nil)
qed (use assms in auto)

lemma normalize_reply_shape:
  assumes "normalize_reply L result = Inr r"
  shows "\<exists>p. r = JObj [(''predictions'', p), (''top_prediction'', first_or_none p)]"
proof -
  from assms obtain p preds t where
    g: "getitem result ''predictions'' = Inr p" and it: "py_iter p = Inr preds"
    and su: "sum_confidence L [] preds = Inr t"
    by (auto simp: normalize_reply_def split: sum.splits)
  from sum_confidence_iterable [OF it su] consider
    (arr) xs where "p = JArr xs" | (obj) "p = JObj []" "t = PyInt 0"
    | (str) "p = JStr []" "t = PyInt 0"
    by auto
  then show ?thesis
  proof cases
    case arr
    show ?thesis
    proof (cases "gt0 t")
      case True
      then obtain preds' where "normalize_all L t preds = Inr preds'"
        and "r = JObj [(''predictions'', JArr preds'),
                (''top_prediction'', (case preds' of [] \<Rightarrow> JNull | x # _ \<Rightarrow> x))]"
        using assms g it su arr
        by (auto simp: normalize_reply_def normalize_in_place_def prediction_result_JArr
            split: sum.splits)
      then show ?thesis by (simp add: first_or_none_JArr)
    next
      case False
      then have "r = JObj [(''predictions'', JArr xs),
                (''top_prediction'', (case xs of [] \<Rightarrow> JNull | x # _ \<Rightarrow> x))]"
        using assms g it su arr
        by (auto simp: normalize_reply_def prediction_result_JArr)
      then show ?thesis using arr by (simp add: first_or_none_JArr)
    qed
  next
    case obj
    then show ?thesis using assms g it su
      by (auto simp: normalize_reply_def prediction_result_def)
  next
    case str
    then show ?thesis using assms g it su
      by (auto simp: normalize_reply_def prediction_result_def)
  qed
qed

lemma predict_result_cases:
  assumes "predict L s img = (Inr r, s')"
  shows "\<exists>p. r = JObj [(''predictions'', p), (''top_prediction'', first_or_none p)]
           \<and> ((printed s' = printed s
                 \<and> (\<exists>k i result. parsed_reply L k i = Inr result \<and> normalize_reply L result = Inr r))
               \<or> (\<exists>e. printed s' = printed s @ [e] \<and> fallback L = Inr r))"
proof -
  from assms obtain k s1 i where ens: "ensure_loaded L s = (Inr k, s1)"
    and enc: "encode_image L img = Inr i"
    by (auto simp: predict_unfold split: prod.splits sum.splits)
  have pr: "printed s1 = printed s"
    by (rule ensure_loaded_printed [OF ens])
  show ?thesis
  proof (cases "try_body L k i")
    case (Inr r')
    then have eq: "r' = r" "s' = s1"
      using assms predict_of_try_body [OF ens enc] by simp_all
    from Inr obtain result where par: "parsed_reply L k i = Inr result"
      and n: "normalize_reply L result = Inr r'"
      by (auto simp: try_body_def split: sum.splits)
    from normalize_reply_shape [OF n] obtain p where
      "r' = JObj [(''predictions'', p), (''top_prediction'', first_or_none p)]"
      by blast
    with eq pr par n show ?thesis by blast
  next
    case (Inl e)
    then have f: "fallback L = Inr r" and s': "s' = s1\<lparr>printed := printed s1 @ [e]\<rparr>"
      using assms predict_of_try_body [OF ens enc] by simp_all
    from fallback_result_shape [OF f] obtain results where
      "r = JObj [(''predictions'', JArr results),
                  (''top_prediction'', first_or_none (JArr results))]"
      by blast
    moreover have "printed s' = printed s @ [e]"
      using s' pr by simp
    ultimately show ?thesis using f by blast
  qed
qed

lemma detect_result_predict:
  assumes "detect_bike_model L s file = (Inr body, s')"
  shows "\<exists>img r p t. predict L s img = (Inr r, s')
           \<and> getitem r ''predictions'' = Inr p \<and> getitem r ''top_prediction'' = Inr t
           \<and> body = JObj [(''success'', JBool True),
                           (''filename'', (case filename file of None \<Rightarrow> JNull | Some n \<Rightarrow> JStr n)),
                           (''predictions'', p), (''top_prediction'', t)]"
proof -
  obtain ct where ct: "content_type file = Some ct"
    using assms by (cases "content_type file") (auto simp: detect_unfold)
  from assms ct have sw: "startswith ct ''image/''"
    by (auto simp: detect_unfold split: if_splits)
  from assms ct sw obtain img where dec: "decode_image L (contents file) = Inr img"
    by (cases "decode_image L (contents file)") (auto simp: detect_unfold)
  from assms ct sw dec show ?thesis
    by (auto simp: detect_unfold split: prod.splits sum.splits)
qed

lemma result_predictions_inject:
  "Inr (JObj [(k1, a), (k2, b)]) = (Inr (JObj [(k1', a'), (k2', b')]) :: exn + json) \<Longrightarrow> a = a'"
  by simp

lemma body_predictions_inject:
  "JObj [k1, k2, (k3, a), k4] = JObj [k1', k2', (k3', a'), k4'] \<Longrightarrow> a = a'"
  by simp

lemma stable_argsort_ok: "argsort_ok ps (stable_argsort ps)"
proof -
  have "sort (sort_key (\<lambda>i. flt_key (ps ! i)) [0..<length ps]) = sort [0..<length ps]"
    by (rule properties_for_sort) simp_all
  then show ?thesis
    by (simp add: argsort_ok_def stable_argsort_def sorted_sort_id)
qed

lemma stub_random_ok:
  "random_ok (length BIKE_MODELS) (random_random (stub_lib ek rp txt v) (length BIKE_MODELS))"
  by (simp add: random_ok_def stub_lib_def stub_scores_def length_BIKE_MODELS)

lemma stub_argsort_ok:
  "argsort_ok (normalized_scores (stub_lib ek rp txt v))
     (argsort (stub_lib ek rp txt v) (normalized_scores (stub_lib ek rp txt v)))"
  using stable_argsort_ok [of "normalized_scores (stub_lib ek rp txt v)"]
  by (simp add: stub_lib_def)

lemma stub_normalized_scores:
  "normalized_scores (stub_lib ek rp txt v) =
     [Fin (1/2), Fin (1/4), Fin (1/8), Fin (1/16), Fin (1/32), Fin (1/64), Fin (1/128),
      Fin (1/256), Fin (1/512), Fin (1/512)]"
  by (simp add: normalized_scores_unfold stub_lib_def stub_scores_def length_BIKE_MODELS
      stub_np_sum_def stub_np_divide_def)

lemma upt_10: "[0..<10] = [0, 1, 2, 3, 4, 5, 6, 7, 8, 9]"
  by (simp add: upt_rec)

lemma stub_top_indices: "top_indices (stub_lib ek rp txt v) = [0, 1, 2]"
  unfolding top_indices_unfold stub_normalized_scores
  by (simp add: stub_lib_def stable_argsort_def upt_10)

lemma stub_fallback:
  "fallback (stub_lib ek rp txt v) =
     Inr (JObj [(''predictions'',
                 JArr [JObj [(''model'', JStr ''Honda CBR600RR''), (''confidence'', JFloat (Fin (1/2)))],
                       JObj [(''model'', JStr ''Yamaha YZF-R1''), (''confidence'', JFloat (Fin (1/4)))],
                       JObj [(''model'', JStr ''Kawasaki Ninja ZX-10R''),
                             (''confidence'', JFloat (Fin (1/8)))]]),
                (''top_prediction'',
                 JObj [(''model'', JStr ''Honda CBR600RR''), (''confidence'', JFloat (Fin (1/2)))])])"
  unfolding fallback_unfold stub_top_indices stub_normalized_scores
  by (simp add: BIKE_MODELS_def)





lemma status_code_Inr: "finite_json body \<Longrightarrow> status_code (fst (Inr body, s)) = 200"
  by simp

lemma stub_path:
  "content_type (stub_file ''image/jpeg'' ''abc'') = Some ''image/jpeg''"
  "startswith ''image/jpeg'' ''image/''"
  "decode_image (stub_lib ek rp txt v) (contents (stub_file ''image/jpeg'' ''abc'')) =
     Inr \<lparr>mode = ''RGB'', raster = ''abc''\<rparr>"
  "ensure_loaded (stub_lib (Some ''sk-test'') rp txt v) init_state =
     (Inr ''sk-test'', \<lparr>client = Some ''sk-test'', is_loaded = True, printed = []\<rparr>)"
  "encode_image (stub_lib ek rp txt v) \<lparr>mode = ''RGB'', raster = ''abc''\<rparr> = Inr ''abc''"
  by (simp_all add: stub_file_def startswith_def decode_image_def stub_lib_def ensure_loaded_def
      init_state_def load_model_def encode_image_def)


lemma stub_try_body_raises:
  "try_body (stub_lib ek (Inl e) txt v) k i = Inl e"
  "try_body (zero_draw_lib ek (Inl e) txt v) k i = Inl e"
  by (simp_all add: try_body_def parsed_reply_def stub_lib_def zero_draw_lib_def)

lemma stub_parsed_reply:
  "parsed_reply (stub_lib ek (Inr (Some empty_reply_text)) empty_reply_text v) k i = Inr v"
  by (simp add: parsed_reply_def stub_lib_def empty_reply_text_def rfind_chr_def slice_def
      stub_json_loads_def Let_def)

lemma stub_run_success:
  "detect_bike_model
       (stub_lib (Some ''sk-test'') (Inr (Some (''Sure: '' @ reply_text @ '' Done.'')))
          reply_text reply_json)
       init_state (stub_file ''image/jpeg'' ''abc'') =
     (Inr (JObj [(''success'', JBool True), (''filename'', JStr ''bike.jpg''),
                 (''predictions'',
                  JArr [JObj [(''model'', JStr ''Honda CBR600RR''), (''confidence'', JFloat (Fin (1/2)))],
                        JObj [(''model'', JStr ''Yamaha YZF-R1''), (''confidence'', JFloat (Fin (1/4)))],
                        JObj [(''model'', JStr ''Ducati Panigale V4''),
                              (''confidence'', JFloat (Fin (1/4)))]]),
                 (''top_prediction'',
                  JObj [(''model'', JStr ''Honda CBR600RR''), (''confidence'', JFloat (Fin (1/2)))])]),
      \<lparr>client = Some ''sk-test'', is_loaded = True, printed = []\<rparr>)"
  by (simp add: detect_unfold predict_unfold stub_lib_def stub_file_def startswith_def
      decode_image_def ensure_loaded_def init_state_def load_model_def
      encode_image_def try_body_def parsed_reply_def reply_text_def rfind_chr_def slice_def
      stub_json_loads_def reply_json_def normalize_reply_def normalize_in_place_def
      confidence_def quotient_def py_sum_def stub_true_divide_def prediction_result_def Let_def)

lemma stub_run_single:
  "detect_bike_model
       (stub_lib (Some ''sk-test'') (Inr (Some single_reply_text)) single_reply_text
          single_reply_json)
       init_state (stub_file ''image/jpeg'' ''abc'') =
     (Inr (JObj [(''success'', JBool True), (''filename'', JStr ''bike.jpg''),
                 (''predictions'',
                  JArr [JObj [(''model'', JStr ''Honda CBR600RR''), (''confidence'', JFloat (Fin 1))]]),
                 (''top_prediction'',
                  JObj [(''model'', JStr ''Honda CBR600RR''), (''confidence'', JFloat (Fin 1))])]),
      \<lparr>client = Some ''sk-test'', is_loaded = True, printed = []\<rparr>)"
  by (simp add: detect_unfold predict_unfold stub_lib_def stub_file_def startswith_def
      decode_image_def ensure_loaded_def init_state_def load_model_def
      encode_image_def try_body_def parsed_reply_def single_reply_text_def rfind_chr_def slice_def
      stub_json_loads_def single_reply_json_def normalize_reply_def normalize_in_place_def
      confidence_def quotient_def py_sum_def stub_true_divide_def prediction_result_def Let_def)

lemma stub_run_fallback:
  "detect_bike_model
       (stub_lib (Some ''sk-test'') (Inl (LibraryError ''Connection error.'')) [] JNull)
       init_state (stub_file ''image/jpeg'' ''abc'') =
     (Inr (JObj [(''success'', JBool True), (''filename'', JStr ''bike.jpg''),
                 (''predictions'',
                  JArr [JObj [(''model'', JStr ''Honda CBR600RR''), (''confidence'', JFloat (Fin (1/2)))], JObj [(''model'', JStr ''Yamaha YZF-R1''), (''confidence'', JFloat (Fin (1/4)))],
                        JObj [(''model'', JStr ''Kawasaki Ninja ZX-10R''), (''confidence'', JFloat (Fin (1/8)))]]),
                 (''top_prediction'', JObj [(''model'', JStr ''Honda CBR600RR''), (''confidence'', JFloat (Fin (1/2)))])]),
      \<lparr>client = Some ''sk-test'', is_loaded = True, printed = [LibraryError ''Connection error.'']\<rparr>)"
proof -
  let ?L = "stub_lib (Some ''sk-test'') (Inl (LibraryError ''Connection error.'')) [] JNull"
  let ?img = "\<lparr>mode = ''RGB'', raster = ''abc''\<rparr>"
  let ?s1 = "\<lparr>client = Some ''sk-test'', is_loaded = True, printed = []\<rparr>"
  have h1: "content_type (stub_file ''image/jpeg'' ''abc'') = Some ''image/jpeg''"
    by (rule stub_path)
  have h2: "startswith ''image/jpeg'' ''image/''"
    by (rule stub_path)
  have h3: "decode_image ?L (contents (stub_file ''image/jpeg'' ''abc'')) = Inr ?img"
    by (rule stub_path)
  have h4: "ensure_loaded ?L init_state = (Inr ''sk-test'', ?s1)"
    by (rule stub_path)
  have h5: "encode_image ?L ?img = Inr ''abc''"
    by (rule stub_path)
  have h6: "try_body ?L ''sk-test'' ''abc'' = Inl (LibraryError ''Connection error.'')"
    by (rule stub_try_body_raises)
  have p: "predict ?L init_state ?img =
             (Inr (JObj [(''predictions'',
                  JArr [JObj [(''model'', JStr ''Honda CBR600RR''), (''confidence'', JFloat (Fin (1/2)))], JObj [(''model'', JStr ''Yamaha YZF-R1''), (''confidence'', JFloat (Fin (1/4)))],
                        JObj [(''model'', JStr ''Kawasaki Ninja ZX-10R''), (''confidence'', JFloat (Fin (1/8)))]]),
                 (''top_prediction'', JObj [(''model'', JStr ''Honda CBR600RR''), (''confidence'', JFloat (Fin (1/2)))])]),
              ?s1\<lparr>printed := printed ?s1 @ [LibraryError ''Connection error.'']\<rparr>)"
    using predict_of_try_body [OF h4 h5] h6 stub_fallback [of "Some ''sk-test''"
        "Inl (LibraryError ''Connection error.'')" "[]" JNull]
    by simp
  show ?thesis
    using detect_of_predict_result [OF h1 h2 h3 p] by (simp add: stub_file_def)
qed






lemma finite_fallback_body:
  "finite_json (JObj [(''success'', JBool True), (''filename'', fn),
       (''predictions'',
        JArr [JObj [(''model'', JStr m1), (''confidence'', JFloat c1)],
              JObj [(''model'', JStr m2), (''confidence'', JFloat c2)],
              JObj [(''model'', JStr m3), (''confidence'', JFloat c3)]]),
       (''top_prediction'', JObj [(''model'', JStr m1), (''confidence'', JFloat c1)])])
   \<longleftrightarrow> finite_json fn \<and> is_fin c1 \<and> is_fin c2 \<and> is_fin c3"
  by auto





lemma handle_label_list: "label_list (snd (handle g req)) = label_list g"
  by (cases req) (simp_all split: prod.splits)

lemma serve_label_list: "label_list (serve g reqs) = label_list g"
  by (induction reqs arbitrary: g) (simp_all add: handle_label_list)

lemma handle_detect_loaded:
  assumes "label_list g = BIKE_MODELS"
  shows "handle g (PostDetect L file) =
           (fst (detect_bike_model L (bike_model g) file),
            g\<lparr>bike_model := snd (detect_bike_model L (bike_model g) file)\<rparr>)"
  using assms by (simp add: detect_bike_model_def split: prod.splits)

lemma adapter_exception_finite_scores:
  assumes ct: "content_type file = Some ct" and sw: "startswith ct ''image/''"
    and dec: "decode_image L (contents file) = Inr img"
    and ens: "ensure_loaded L s = (Inr k, s1)"
    and enc: "encode_image L img = Inr i"
    and exc: "try_body L k i = Inl e"
    and r: "random_ok (length BIKE_MODELS) (random_random L (length BIKE_MODELS))"
    and a: "argsort_ok (normalized_scores L) (argsort L (normalized_scores L))"
    and fin: "list_all is_fin (normalized_scores L)"
  shows "status_code (fst (detect_bike_model L s file)) = 200
       \<and> (\<exists>i1 i2 i3.
             detect_bike_model L s file =
               (Inr (JObj [(''success'', JBool True),
                           (''filename'', (case filename file of None \<Rightarrow> JNull | Some n \<Rightarrow> JStr n)),
                           (''predictions'',
                            JArr [JObj [(''model'', JStr (BIKE_MODELS ! i1)),
                                        (''confidence'', JFloat (normalized_scores L ! i1))],
                                  JObj [(''model'', JStr (BIKE_MODELS ! i2)),
                                        (''confidence'', JFloat (normalized_scores L ! i2))],
                                  JObj [(''model'', JStr (BIKE_MODELS ! i3)),
                                        (''confidence'', JFloat (normalized_scores L ! i3))]]),
                           (''top_prediction'',
                            JObj [(''model'', JStr (BIKE_MODELS ! i1)),
                                  (''confidence'', JFloat (normalized_scores L ! i1))])]),
                s1\<lparr>printed := printed s1 @ [e]\<rparr>)
           \<and> distinct [i1, i2, i3] \<and> i1 < 10 \<and> i2 < 10 \<and> i3 < 10)"
proof -
  have len: "length (normalized_scores L) = 10"
    by (rule length_normalized_scores [OF r])
  from fallback_shape [OF r a] obtain i1 i2 i3 where
    f: "fallback L =
             Inr (JObj [(''predictions'',
                         JArr [JObj [(''model'', JStr (BIKE_MODELS ! i1)),
                                     (''confidence'', JFloat (normalized_scores L ! i1))],
                               JObj [(''model'', JStr (BIKE_MODELS ! i2)),
                                     (''confidence'', JFloat (normalized_scores L ! i2))],
                               JObj [(''model'', JStr (BIKE_MODELS ! i3)),
                                     (''confidence'', JFloat (normalized_scores L ! i3))]]),
                        (''top_prediction'',
                         JObj [(''model'', JStr (BIKE_MODELS ! i1)),
                               (''confidence'', JFloat (normalized_scores L ! i1))])])"
    and d: "distinct [i1, i2, i3]" and b: "i1 < 10" "i2 < 10" "i3 < 10"
    by (elim exE conjE) (rule that; assumption)
  have fi: "is_fin (normalized_scores L ! j)" if "j < 10" for j
    using fin that len by (simp add: list_all_length)
  have p: "predict L s img =
             (Inr (JObj [(''predictions'',
                         JArr [JObj [(''model'', JStr (BIKE_MODELS ! i1)),
                                     (''confidence'', JFloat (normalized_scores L ! i1))],
                               JObj [(''model'', JStr (BIKE_MODELS ! i2)),
                                     (''confidence'', JFloat (normalized_scores L ! i2))],
                               JObj [(''model'', JStr (BIKE_MODELS ! i3)),
                                     (''confidence'', JFloat (normalized_scores L ! i3))]]),
                        (''top_prediction'',
                         JObj [(''model'', JStr (BIKE_MODELS ! i1)),
                               (''confidence'', JFloat (normalized_scores L ! i1))])]),
              s1\<lparr>printed := printed s1 @ [e]\<rparr>)"
    using predict_of_try_body [OF ens enc] exc f by simp
  note dt = detect_of_predict_result [OF ct sw dec p]
  have st: "status_code (fst (detect_bike_model L s file)) = 200"
    unfolding dt using fi [OF b(1)] fi [OF b(2)] fi [OF b(3)]
    by (simp add: finite_fallback_body split: option.splits)
  from dt d b have "\<exists>i1 i2 i3.
             detect_bike_model L s file =
               (Inr (JObj [(''success'', JBool True),
                           (''filename'', (case filename file of None \<Rightarrow> JNull | Some n \<Rightarrow> JStr n)),
                           (''predictions'',
                            JArr [JObj [(''model'', JStr (BIKE_MODELS ! i1)),
                                        (''confidence'', JFloat (normalized_scores L ! i1))],
                                  JObj [(''model'', JStr (BIKE_MODELS ! i2)),
                                        (''confidence'', JFloat (normalized_scores L ! i2))],
                                  JObj [(''model'', JStr (BIKE_MODELS ! i3)),
                                        (''confidence'', JFloat (normalized_scores L ! i3))]]),
                           (''top_prediction'',
                            JObj [(''model'', JStr (BIKE_MODELS ! i1)),
                                  (''confidence'', JFloat (normalized_scores L ! i1))])]),
                s1\<lparr>printed := printed s1 @ [e]\<rparr>)
           \<and> distinct [i1, i2, i3] \<and> i1 < 10 \<and> i2 < 10 \<and> i3 < 10"
    by (intro exI [of _ i1] exI [of _ i2] exI [of _ i3] conjI) assumption+
  with st show ?thesis by (rule conjI)
qed

section \<open>The claims\<close>

subsection \<open>The list of candidate labels\<close>

text \<open>
  Claim C9. \<^verbatim>\<open>GET /models\<close> returns the ten configured labels in their defined order,
  the same at every call, and no operation changes the list. The list is a global of the
  module, and every handler runs on the module as the requests before it have left it.
  Whatever requests \<open>reqs\<close> have been served since the module was loaded (detections
  with any library and any upload, answered or failed, among them), the list is the
  one of lines 27 to 38; one more request \<open>req\<close>, whatever it is, leaves it so; the
  answer of \<^verbatim>\<open>GET /models\<close> is then the dictionary below, it leaves the module as it
  was, it is the answer the first call after loading gets, and it is rendered with the
  status 200.
\<close>

theorem models_fixed:
  "label_list (serve init_module reqs) = BIKE_MODELS
   \<and> label_list (snd (handle (serve init_module reqs) req)) = BIKE_MODELS
   \<and> handle (serve init_module reqs) GetModels =
       (Inr (JObj [(''models'',
                    JArr [JStr ''Honda CBR600RR'', JStr ''Yamaha YZF-R1'',
                          JStr ''Kawasaki Ninja ZX-10R'', JStr ''Suzuki GSX-R1000'',
                          JStr ''Ducati Panigale V4'', JStr ''BMW S1000RR'', JStr ''Aprilia RSV4'',
                          JStr ''KTM RC 390'', JStr ''Triumph Daytona 675'',
                          JStr ''MV Agusta F3''])]),
        serve init_module reqs)
   \<and> fst (handle (serve init_module reqs) GetModels) = fst (handle init_module GetModels)
   \<and> status_code (fst (handle (serve init_module reqs) GetModels)) = 200"
proof -
  have l: "label_list (serve init_module reqs) = BIKE_MODELS"
    by (simp add: serve_label_list init_module_def)
  have l': "label_list (snd (handle (serve init_module reqs) req)) = BIKE_MODELS"
    using l by (simp add: handle_label_list)
  have h: "handle (serve init_module reqs) GetModels =
       (Inr (JObj [(''models'',
                    JArr [JStr ''Honda CBR600RR'', JStr ''Yamaha YZF-R1'',
                          JStr ''Kawasaki Ninja ZX-10R'', JStr ''Suzuki GSX-R1000'',
                          JStr ''Ducati Panigale V4'', JStr ''BMW S1000RR'', JStr ''Aprilia RSV4'',
                          JStr ''KTM RC 390'', JStr ''Triumph Daytona 675'',
                          JStr ''MV Agusta F3''])]),
        serve init_module reqs)"
    using l by (simp add: get_available_models_at_def BIKE_MODELS_def)
  have e: "fst (handle (serve init_module reqs) GetModels) = fst (handle init_module GetModels)"
    using l by (simp add: init_module_def)
  have s: "status_code (fst (handle (serve init_module reqs) GetModels)) = 200"
    unfolding h by simp
  from l l' h e s show ?thesis
    by (intro conjI)
qed

subsection \<open>Uploads that are not images\<close>

text \<open>
  Claim C1. An upload whose declared content type does not start with \<^verbatim>\<open>image/\<close> is
  claimed to get a status of the 4xx class without the adapter being invoked. Line 157
  raises the status 400, but inside the \<^verbatim>\<open>try\<close> whose handler at line 174 catches it
  and raises the status 500 with the text of the first exception in its detail. The
  answer is the same for every library and every state, and the state is left as it
  was: \<^verbatim>\<open>predict\<close> is not reached, nothing is loaded and nothing is printed.
\<close>

theorem detect_non_image:
  assumes "content_type file = Some ct" and "\<not> startswith ct ''image/''"
  shows "detect_bike_model L s file =
           (Inl (HTTPException 500 (msg_processing_error @ ''400: '' @ msg_not_image)), s)
         \<and> status_code (fst (detect_bike_model L s file)) = 500"
  using assms by (simp add: detect_unfold show_nat_400)

theorem detect_non_image_witness:
  "content_type (stub_file ''text/plain'' ''abc'') = Some ''text/plain''
   \<and> \<not> startswith ''text/plain'' ''image/''
   \<and> detect_bike_model (stub_lib None (Inr None) [] JNull) init_state
        (stub_file ''text/plain'' ''abc'') =
       (Inl (HTTPException 500 (msg_processing_error @ ''400: '' @ msg_not_image)), init_state)
   \<and> status_code (fst (detect_bike_model (stub_lib None (Inr None) [] JNull) init_state
        (stub_file ''text/plain'' ''abc''))) = 500"
proof -
  have ct: "content_type (stub_file ''text/plain'' ''abc'') = Some ''text/plain''"
    by (simp add: stub_file_def)
  have ns: "\<not> startswith ''text/plain'' ''image/''"
    by (simp add: startswith_def)
  show ?thesis
    using detect_non_image [OF ct ns, of "stub_lib None (Inr None) [] JNull" init_state] ct ns
    by simp
qed

subsection \<open>Payloads that do not decode\<close>

text \<open>
  Claim C8. When the declared content type is an image type and decoding the payload
  (\<^verbatim>\<open>Image.open\<close>, or the conversion to RGB) raises \<open>e\<close>, the handler answers with the
  status 500 and a detail made of the fixed prefix of line 175 followed by the text of
  \<open>e\<close>; the request returns this answer and leaves the state as it was.
\<close>

theorem detect_decode_failure:
  assumes "content_type file = Some ct" and "startswith ct ''image/''"
    and "decode_image L (contents file) = Inl e"
  shows "detect_bike_model L s file =
           (Inl (HTTPException 500 (msg_processing_error @ exn_str e)), s)
         \<and> status_code (fst (detect_bike_model L s file)) = 500"
  using assms by (simp add: detect_unfold)

theorem detect_decode_failure_witness:
  "content_type (stub_file ''image/png'' []) = Some ''image/png''
   \<and> startswith ''image/png'' ''image/''
   \<and> decode_image (stub_lib None (Inr None) [] JNull) (contents (stub_file ''image/png'' [])) =
       Inl (LibraryError ''cannot identify image file'')
   \<and> detect_bike_model (stub_lib None (Inr None) [] JNull) init_state (stub_file ''image/png'' []) =
       (Inl (HTTPException 500 (msg_processing_error @ ''cannot identify image file'')), init_state)
   \<and> status_code (fst (detect_bike_model (stub_lib None (Inr None) [] JNull) init_state
        (stub_file ''image/png'' []))) = 500"
proof -
  have ct: "content_type (stub_file ''image/png'' []) = Some ''image/png''"
    by (simp add: stub_file_def)
  have sw: "startswith ''image/png'' ''image/''"
    by (simp add: startswith_def)
  have dec: "decode_image (stub_lib None (Inr None) [] JNull) (contents (stub_file ''image/png'' [])) =
       Inl (LibraryError ''cannot identify image file'')"
    by (simp add: decode_image_def stub_lib_def stub_file_def)
  show ?thesis
    using detect_decode_failure [OF ct sw dec, of init_state] ct sw dec
    by simp
qed

subsection \<open>Normalisation of the model's confidences\<close>




subsection \<open>The fallback predictor\<close>




text \<open>
  Claim C5, as the code has it. The confidences of the three predictions returned by
  the fallback are, for three distinct indices, the score drawn at that index divided
  by the sum of all ten scores drawn. Nothing divides them again by the sum of the three.
\<close>

theorem fallback_confidences:
  assumes r: "random_ok (length BIKE_MODELS) (random_random L (length BIKE_MODELS))"
    and a: "argsort_ok (normalized_scores L) (argsort L (normalized_scores L))"
  shows "\<exists>i1 i2 i3.
           fallback L =
             Inr (JObj [(''predictions'',
                         JArr [JObj [(''model'', JStr (BIKE_MODELS ! i1)),
                                     (''confidence'',
                                      JFloat (np_divide L (random_random L (length BIKE_MODELS) ! i1)
                                                (np_sum L (random_random L (length BIKE_MODELS)))))],
                               JObj [(''model'', JStr (BIKE_MODELS ! i2)),
                                     (''confidence'',
                                      JFloat (np_divide L (random_random L (length BIKE_MODELS) ! i2)
                                                (np_sum L (random_random L (length BIKE_MODELS)))))],
                               JObj [(''model'', JStr (BIKE_MODELS ! i3)),
                                     (''confidence'',
                                      JFloat (np_divide L (random_random L (length BIKE_MODELS) ! i3)
                                                (np_sum L (random_random L (length BIKE_MODELS)))))]]),
                        (''top_prediction'',
                         JObj [(''model'', JStr (BIKE_MODELS ! i1)),
                               (''confidence'',
                                JFloat (np_divide L (random_random L (length BIKE_MODELS) ! i1)
                                          (np_sum L (random_random L (length BIKE_MODELS)))))])])
         \<and> distinct [i1, i2, i3] \<and> i1 < 10 \<and> i2 < 10 \<and> i3 < 10"
proof -
  let ?rs = "random_random L (length BIKE_MODELS)"
  have l: "length ?rs = 10"
    using r by (simp add: random_ok_def length_BIKE_MODELS)
  from fallback_shape [OF r a] obtain i1 i2 i3 where
    f: "fallback L =
               Inr (JObj [(''predictions'',
                           JArr [JObj [(''model'', JStr (BIKE_MODELS ! i1)),
                                       (''confidence'', JFloat (normalized_scores L ! i1))],
                                 JObj [(''model'', JStr (BIKE_MODELS ! i2)),
                                       (''confidence'', JFloat (normalized_scores L ! i2))],
                                 JObj [(''model'', JStr (BIKE_MODELS ! i3)),
                                       (''confidence'', JFloat (normalized_scores L ! i3))]]),
                          (''top_prediction'',
                           JObj [(''model'', JStr (BIKE_MODELS ! i1)),
                                 (''confidence'', JFloat (normalized_scores L ! i1))])])"
    and d: "distinct [i1, i2, i3]" and b: "i1 < 10" "i2 < 10" "i3 < 10"
    by (elim exE conjE) (rule that; assumption)
  have n: "normalized_scores L ! j = np_divide L (?rs ! j) (np_sum L ?rs)" if "j < 10" for j
    using that l by (simp add: normalized_scores_unfold)
  from f d b show ?thesis
    unfolding n [OF b(1)] n [OF b(2)] n [OF b(3)]
    by (intro exI [of _ i1] exI [of _ i2] exI [of _ i3] conjI) assumption+
qed

theorem fallback_confidences_witness:
  "random_ok (length BIKE_MODELS)
     (random_random (stub_lib None (Inr None) [] JNull) (length BIKE_MODELS))
   \<and> argsort_ok (normalized_scores (stub_lib None (Inr None) [] JNull))
       (argsort (stub_lib None (Inr None) [] JNull)
          (normalized_scores (stub_lib None (Inr None) [] JNull)))
   \<and> (\<exists>i1 i2 i3.
         fallback (stub_lib None (Inr None) [] JNull) =
           Inr (JObj [(''predictions'',
                       JArr [JObj [(''model'', JStr (BIKE_MODELS ! i1)),
                                   (''confidence'', JFloat (stub_np_divide (stub_scores ! i1) (Fin 1)))],
                             JObj [(''model'', JStr (BIKE_MODELS ! i2)),
                                   (''confidence'', JFloat (stub_np_divide (stub_scores ! i2) (Fin 1)))],
                             JObj [(''model'', JStr (BIKE_MODELS ! i3)),
                                   (''confidence'', JFloat (stub_np_divide (stub_scores ! i3) (Fin 1)))]]),
                      (''top_prediction'',
                       JObj [(''model'', JStr (BIKE_MODELS ! i1)),
                             (''confidence'', JFloat (stub_np_divide (stub_scores ! i1) (Fin 1)))])])
       \<and> distinct [i1, i2, i3] \<and> i1 < 10 \<and> i2 < 10 \<and> i3 < 10)"
proof -
  let ?L = "stub_lib None (Inr None) [] JNull"
  have h1: "random_ok (length BIKE_MODELS) (random_random ?L (length BIKE_MODELS))"
    by (rule stub_random_ok)
  have h2: "argsort_ok (normalized_scores ?L) (argsort ?L (normalized_scores ?L))"
    by (rule stub_argsort_ok)
  have rs: "random_random ?L (length BIKE_MODELS) = stub_scores"
    by (simp add: stub_lib_def stub_scores_def length_BIKE_MODELS)
  have dv: "np_divide ?L = stub_np_divide"
    by (simp add: stub_lib_def)
  have sm: "np_sum ?L stub_scores = Fin 1"
    by (simp add: stub_lib_def stub_np_sum_def stub_scores_def)
  show ?thesis
    using h1 h2 fallback_confidences [OF h1 h2]
    unfolding rs dv sm by (intro conjI)
qed

text \<open>
  The claim says that the three confidences returned sum to 1. For the scores 1/2, 1/4,
  1/8, ..., 1/512, 1/512 (powers of two, whose sum is the double 1.0 and whose
  quotients by it are the scores) the fallback returns 1/2, 1/4 and 1/8, whose sum
  is 7/8.
\<close>

theorem fallback_confidence_sum_counterexample:
  "fallback (stub_lib None (Inr None) [] JNull) =
       Inr (JObj [(''predictions'',
                   JArr [JObj [(''model'', JStr ''Honda CBR600RR''), (''confidence'', JFloat (Fin (1/2)))],
                         JObj [(''model'', JStr ''Yamaha YZF-R1''), (''confidence'', JFloat (Fin (1/4)))],
                         JObj [(''model'', JStr ''Kawasaki Ninja ZX-10R''),
                               (''confidence'', JFloat (Fin (1/8)))]]),
                  (''top_prediction'',
                   JObj [(''model'', JStr ''Honda CBR600RR''), (''confidence'', JFloat (Fin (1/2)))])])
   \<and> (1/2 + 1/4 + 1/8 :: real) = 7/8
   \<and> (7/8 :: real) \<noteq> 1"
  using stub_fallback [of None "Inr None" "[]" JNull] by simp

subsection \<open>Exceptions inside the adapter\<close>



subsection \<open>What triggers the fallback\<close>

text \<open>
  Claim C6, as amended. The fallback is what \<^verbatim>\<open>predict\<close> returns whenever the body of
  its \<^verbatim>\<open>try\<close> raises, the exception being printed. The lazy initialisation of lines 54
  and 55 stands before the \<^verbatim>\<open>try\<close>: on a model not yet loaded, with no key in the
  environment (absent or empty), \<^verbatim>\<open>predict\<close> raises the \<^verbatim>\<open>ValueError\<close> of line 48, the
  state is left as it was, and \<^verbatim>\<open>POST /detect\<close> answers with the status 500 and that
  message in its detail.
\<close>

theorem fallback_trigger:
  "(ensure_loaded L s = (Inr k, s1) \<longrightarrow> encode_image L img = Inr i \<longrightarrow> try_body L k i = Inl e \<longrightarrow>
      predict L s img = (fallback L, s1\<lparr>printed := printed s1 @ [e]\<rparr>))
   \<and> (\<not> is_loaded s2 \<longrightarrow> (getenv_api_key L2 = None \<or> getenv_api_key L2 = Some []) \<longrightarrow>
        predict L2 s2 img2 = (Inl (ValueError msg_no_api_key), s2)
        \<and> (content_type file = Some ct \<longrightarrow> startswith ct ''image/'' \<longrightarrow>
             decode_image L2 (contents file) = Inr img2 \<longrightarrow>
             detect_bike_model L2 s2 file =
               (Inl (HTTPException 500 (msg_processing_error @ msg_no_api_key)), s2)
             \<and> status_code (fst (detect_bike_model L2 s2 file)) = 500))"
proof (intro conjI impI)
  assume "ensure_loaded L s = (Inr k, s1)" "encode_image L img = Inr i" "try_body L k i = Inl e"
  then show "predict L s img = (fallback L, s1\<lparr>printed := printed s1 @ [e]\<rparr>)"
    using predict_of_try_body [of L s k s1 img i] by simp
next
  assume h: "\<not> is_loaded s2" "getenv_api_key L2 = None \<or> getenv_api_key L2 = Some []"
  show p: "predict L2 s2 img2 = (Inl (ValueError msg_no_api_key), s2)"
    by (rule predict_no_key [OF h])
  assume f: "content_type file = Some ct" "startswith ct ''image/''"
    "decode_image L2 (contents file) = Inr img2"
  show d: "detect_bike_model L2 s2 file =
               (Inl (HTTPException 500 (msg_processing_error @ msg_no_api_key)), s2)"
    using detect_of_predict_error [OF f p] by simp
  show "status_code (fst (detect_bike_model L2 s2 file)) = 500"
    unfolding d by simp
qed

theorem fallback_trigger_witness:
  "predict (stub_lib (Some ''sk-test'') (Inl (LibraryError ''Connection error.'')) [] JNull)
       init_state \<lparr>mode = ''RGB'', raster = ''abc''\<rparr> =
     (fallback (stub_lib (Some ''sk-test'') (Inl (LibraryError ''Connection error.'')) [] JNull),
      \<lparr>client = Some ''sk-test'', is_loaded = True, printed = [LibraryError ''Connection error.'']\<rparr>)
   \<and> predict (stub_lib None (Inl (LibraryError ''Connection error.'')) [] JNull)
       init_state \<lparr>mode = ''RGB'', raster = ''abc''\<rparr> =
     (Inl (ValueError msg_no_api_key), init_state)
   \<and> detect_bike_model (stub_lib None (Inl (LibraryError ''Connection error.'')) [] JNull)
       init_state (stub_file ''image/jpeg'' ''abc'') =
     (Inl (HTTPException 500 (msg_processing_error @ msg_no_api_key)), init_state)
   \<and> status_code (fst (detect_bike_model
        (stub_lib None (Inl (LibraryError ''Connection error.'')) [] JNull)
        init_state (stub_file ''image/jpeg'' ''abc''))) = 500"
proof -
  let ?L = "stub_lib (Some ''sk-test'') (Inl (LibraryError ''Connection error.'')) [] JNull"
  let ?L2 = "stub_lib None (Inl (LibraryError ''Connection error.'')) [] JNull"
  let ?img = "\<lparr>mode = ''RGB'', raster = ''abc''\<rparr>"
  let ?s1 = "\<lparr>client = Some ''sk-test'', is_loaded = True, printed = []\<rparr>"
  have h1: "content_type (stub_file ''image/jpeg'' ''abc'') = Some ''image/jpeg''"
    by (rule stub_path)
  have h2: "startswith ''image/jpeg'' ''image/''"
    by (rule stub_path)
  have h3: "decode_image ?L2 (contents (stub_file ''image/jpeg'' ''abc'')) = Inr ?img"
    by (rule stub_path)
  have h4: "ensure_loaded ?L init_state = (Inr ''sk-test'', ?s1)"
    by (rule stub_path)
  have h5: "encode_image ?L ?img = Inr ''abc''"
    by (rule stub_path)
  have h6: "try_body ?L ''sk-test'' ''abc'' = Inl (LibraryError ''Connection error.'')"
    by (rule stub_try_body_raises)
  have n1: "\<not> is_loaded init_state"
    by (simp add: init_state_def)
  have n2: "getenv_api_key ?L2 = None \<or> getenv_api_key ?L2 = Some []"
    by (simp add: stub_lib_def)
  note t = fallback_trigger [of ?L init_state "''sk-test''" ?s1 ?img "''abc''"
      "LibraryError ''Connection error.''" init_state ?L2 ?img
      "stub_file ''image/jpeg'' ''abc''" "''image/jpeg''"]
  show ?thesis
    using t h1 h2 h3 h4 h5 h6 n1 n2 by simp
qed

text \<open>
  The claim as stated has a call of \<^verbatim>\<open>predict\<close> with no key configured produce fallback
  predictions. On the initial state with no key in the environment, and a provider that
  would answer, \<^verbatim>\<open>predict\<close> raises and the handler answers 500.
\<close>

theorem missing_key_counterexample:
  "\<not> is_loaded init_state
   \<and> getenv_api_key (stub_lib None (Inr (Some reply_text)) reply_text reply_json) = None
   \<and> predict (stub_lib None (Inr (Some reply_text)) reply_text reply_json)
       init_state \<lparr>mode = ''RGB'', raster = ''abc''\<rparr> =
     (Inl (ValueError msg_no_api_key), init_state)
   \<and> detect_bike_model (stub_lib None (Inr (Some reply_text)) reply_text reply_json)
       init_state (stub_file ''image/jpeg'' ''abc'') =
     (Inl (HTTPException 500 (msg_processing_error @ msg_no_api_key)), init_state)"
  by (simp add: detect_unfold predict_unfold stub_lib_def stub_file_def startswith_def
      decode_image_def ensure_loaded_def init_state_def load_model_def)

subsection \<open>A reply with no predictions\<close>

text \<open>
  Claim C10. Take a request that reaches the \<^verbatim>\<open>try\<close> of \<^verbatim>\<open>predict\<close> and whose reply parses
  to a dictionary with an empty list under \<^verbatim>\<open>predictions\<close>. Then \<^verbatim>\<open>predict\<close> returns that
  empty list with \<^verbatim>\<open>None\<close> as the top prediction, raising nothing, and \<^verbatim>\<open>POST /detect\<close>
  answers with the status 200, \<^verbatim>\<open>success\<close> true, no prediction and a null top prediction.
\<close>

theorem empty_predictions:
  assumes ct: "content_type file = Some ct" and sw: "startswith ct ''image/''"
    and dec: "decode_image L (contents file) = Inr img"
    and ens: "ensure_loaded L s = (Inr k, s1)"
    and enc: "encode_image L img = Inr i"
    and par: "parsed_reply L k i = Inr result"
    and emp: "getitem result ''predictions'' = Inr (JArr [])"
  shows "predict L s img =
           (Inr (JObj [(''predictions'', JArr []), (''top_prediction'', JNull)]), s1)
       \<and> detect_bike_model L s file =
           (Inr (JObj [(''success'', JBool True),
                       (''filename'', (case filename file of None \<Rightarrow> JNull | Some n \<Rightarrow> JStr n)),
                       (''predictions'', JArr []),
                       (''top_prediction'', JNull)]), s1)
       \<and> status_code (fst (detect_bike_model L s file)) = 200"
proof -
  have n: "normalize_reply L result =
             Inr (JObj [(''predictions'', JArr []), (''top_prediction'', JNull)])"
    using emp by (simp add: normalize_reply_def prediction_result_def py_sum_Nil)
  have p: "predict L s img =
           (Inr (JObj [(''predictions'', JArr []), (''top_prediction'', JNull)]), s1)"
    using predict_of_try_body [OF ens enc] par n by (simp add: try_body_def)
  note d = detect_of_predict_result [OF ct sw dec p]
  have "status_code (fst (detect_bike_model L s file)) = 200"
    unfolding d by (rule status_code_Inr) (simp split: option.splits)
  with p d show ?thesis by simp
qed

theorem empty_predictions_witness:
  "parsed_reply (stub_lib (Some ''sk-test'') (Inr (Some empty_reply_text)) empty_reply_text
       empty_reply_json) ''sk-test'' ''abc'' = Inr empty_reply_json
   \<and> getitem empty_reply_json ''predictions'' = Inr (JArr [])
   \<and> predict (stub_lib (Some ''sk-test'') (Inr (Some empty_reply_text)) empty_reply_text
         empty_reply_json) init_state \<lparr>mode = ''RGB'', raster = ''abc''\<rparr> =
       (Inr (JObj [(''predictions'', JArr []), (''top_prediction'', JNull)]),
        \<lparr>client = Some ''sk-test'', is_loaded = True, printed = []\<rparr>)
   \<and> detect_bike_model (stub_lib (Some ''sk-test'') (Inr (Some empty_reply_text))
         empty_reply_text empty_reply_json) init_state (stub_file ''image/jpeg'' ''abc'') =
       (Inr (JObj [(''success'', JBool True), (''filename'', JStr ''bike.jpg''),
                   (''predictions'', JArr []), (''top_prediction'', JNull)]),
        \<lparr>client = Some ''sk-test'', is_loaded = True, printed = []\<rparr>)
   \<and> status_code (fst (detect_bike_model (stub_lib (Some ''sk-test'')
         (Inr (Some empty_reply_text)) empty_reply_text empty_reply_json) init_state
         (stub_file ''image/jpeg'' ''abc''))) = 200"
proof -
  let ?L = "stub_lib (Some ''sk-test'') (Inr (Some empty_reply_text)) empty_reply_text
       empty_reply_json"
  let ?img = "\<lparr>mode = ''RGB'', raster = ''abc''\<rparr>"
  let ?s1 = "\<lparr>client = Some ''sk-test'', is_loaded = True, printed = []\<rparr>"
  have h1: "content_type (stub_file ''image/jpeg'' ''abc'') = Some ''image/jpeg''"
    by (rule stub_path)
  have h2: "startswith ''image/jpeg'' ''image/''"
    by (rule stub_path)
  have h3: "decode_image ?L (contents (stub_file ''image/jpeg'' ''abc'')) = Inr ?img"
    by (rule stub_path)
  have h4: "ensure_loaded ?L init_state = (Inr ''sk-test'', ?s1)"
    by (rule stub_path)
  have h5: "encode_image ?L ?img = Inr ''abc''"
    by (rule stub_path)
  have h6: "parsed_reply ?L ''sk-test'' ''abc'' = Inr empty_reply_json"
    by (rule stub_parsed_reply)
  have h7: "getitem empty_reply_json ''predictions'' = Inr (JArr [])"
    by (simp add: empty_reply_json_def)
  show ?thesis
    using empty_predictions [OF h1 h2 h3 h4 h5 h6 h7] h6 h7
    by (simp add: stub_file_def)
qed

subsection \<open>The shape of a detection result\<close>

text \<open>
  Claim C7, as amended. Every success answer of \<^verbatim>\<open>POST /detect\<close> carries a prediction
  list and, as top prediction, the first element of that list (\<^verbatim>\<open>None\<close> when there is
  none). Either nothing was printed and the list is the one of the parsed reply after
  normalisation, of whatever length the reply gave it, or one exception was printed and
  the list is the fallback's, which holds exactly three predictions (numpy's calls
  meeting their contracts).
\<close>

theorem detection_result_shape:
  assumes "detect_bike_model L s file = (Inr body, s')"
  shows "\<exists>p. body = JObj [(''success'', JBool True),
                         (''filename'', (case filename file of None \<Rightarrow> JNull | Some n \<Rightarrow> JStr n)),
                         (''predictions'', p),
                         (''top_prediction'', first_or_none p)]
           \<and> ((printed s' = printed s
                 \<and> (\<exists>k i result. parsed_reply L k i = Inr result
                       \<and> normalize_reply L result =
                           Inr (JObj [(''predictions'', p), (''top_prediction'', first_or_none p)])))
               \<or> (\<exists>e. printed s' = printed s @ [e]
                       \<and> fallback L =
                           Inr (JObj [(''predictions'', p), (''top_prediction'', first_or_none p)])))
           \<and> (printed s' \<noteq> printed s \<longrightarrow>
                random_ok (length BIKE_MODELS) (random_random L (length BIKE_MODELS)) \<longrightarrow>
                argsort_ok (normalized_scores L) (argsort L (normalized_scores L)) \<longrightarrow>
                (\<exists>x1 x2 x3. p = JArr [x1, x2, x3]))"
proof -
  from detect_result_predict [OF assms] obtain img r p t where
    pr: "predict L s img = (Inr r, s')"
    and gp: "getitem r ''predictions'' = Inr p" and gt: "getitem r ''top_prediction'' = Inr t"
    and b: "body = JObj [(''success'', JBool True),
                         (''filename'', (case filename file of None \<Rightarrow> JNull | Some n \<Rightarrow> JStr n)),
                         (''predictions'', p), (''top_prediction'', t)]"
    by (elim exE conjE) (rule that; assumption)
  from predict_result_cases [OF pr] obtain p0 where
    r: "r = JObj [(''predictions'', p0), (''top_prediction'', first_or_none p0)]"
    and c: "(printed s' = printed s
                 \<and> (\<exists>k i result. parsed_reply L k i = Inr result \<and> normalize_reply L result = Inr r))
               \<or> (\<exists>e. printed s' = printed s @ [e] \<and> fallback L = Inr r)"
    by (elim exE conjE) (rule that; assumption)
  have p: "p = p0" and t: "t = first_or_none p0"
    using gp gt r by simp_all
  have three: "\<exists>x1 x2 x3. p = JArr [x1, x2, x3]"
    if ne: "printed s' \<noteq> printed s"
      and ro: "random_ok (length BIKE_MODELS) (random_random L (length BIKE_MODELS))"
      and ao: "argsort_ok (normalized_scores L) (argsort L (normalized_scores L))"
  proof -
    from c ne have f: "fallback L = Inr r" by blast
    from fallback_shape [OF ro ao] obtain i1 i2 i3 where
      fs: "fallback L =
             Inr (JObj [(''predictions'',
                         JArr [JObj [(''model'', JStr (BIKE_MODELS ! i1)), (''confidence'', JFloat (normalized_scores L ! i1))],
                               JObj [(''model'', JStr (BIKE_MODELS ! i2)), (''confidence'', JFloat (normalized_scores L ! i2))],
                               JObj [(''model'', JStr (BIKE_MODELS ! i3)), (''confidence'', JFloat (normalized_scores L ! i3))]]),
                        (''top_prediction'',
                         JObj [(''model'', JStr (BIKE_MODELS ! i1)), (''confidence'', JFloat (normalized_scores L ! i1))])])"
      by (elim exE conjE) (rule that; assumption)
    from fs [symmetric] f have
      "Inr (JObj [(''predictions'',
                         JArr [JObj [(''model'', JStr (BIKE_MODELS ! i1)), (''confidence'', JFloat (normalized_scores L ! i1))],
                               JObj [(''model'', JStr (BIKE_MODELS ! i2)), (''confidence'', JFloat (normalized_scores L ! i2))],
                               JObj [(''model'', JStr (BIKE_MODELS ! i3)), (''confidence'', JFloat (normalized_scores L ! i3))]]),
                        (''top_prediction'',
                         JObj [(''model'', JStr (BIKE_MODELS ! i1)), (''confidence'', JFloat (normalized_scores L ! i1))])]) =
       (Inr r :: exn + json)"
      by (rule trans)
    then have "JArr [JObj [(''model'', JStr (BIKE_MODELS ! i1)), (''confidence'', JFloat (normalized_scores L ! i1))],
                     JObj [(''model'', JStr (BIKE_MODELS ! i2)), (''confidence'', JFloat (normalized_scores L ! i2))],
                     JObj [(''model'', JStr (BIKE_MODELS ! i3)), (''confidence'', JFloat (normalized_scores L ! i3))]] = p0"
      unfolding r by (rule result_predictions_inject)
    then have "p = JArr [JObj [(''model'', JStr (BIKE_MODELS ! i1)), (''confidence'', JFloat (normalized_scores L ! i1))],
                     JObj [(''model'', JStr (BIKE_MODELS ! i2)), (''confidence'', JFloat (normalized_scores L ! i2))],
                     JObj [(''model'', JStr (BIKE_MODELS ! i3)), (''confidence'', JFloat (normalized_scores L ! i3))]]"
      unfolding p by (rule sym)
    then show ?thesis by blast
  qed
  have b': "body = JObj [(''success'', JBool True),
                         (''filename'', (case filename file of None \<Rightarrow> JNull | Some n \<Rightarrow> JStr n)),
                         (''predictions'', p),
                         (''top_prediction'', first_or_none p)]"
    using b p t by simp
  have c': "(printed s' = printed s
                 \<and> (\<exists>k i result. parsed_reply L k i = Inr result
                       \<and> normalize_reply L result =
                           Inr (JObj [(''predictions'', p), (''top_prediction'', first_or_none p)])))
               \<or> (\<exists>e. printed s' = printed s @ [e]
                       \<and> fallback L =
                           Inr (JObj [(''predictions'', p), (''top_prediction'', first_or_none p)]))"
    using c unfolding r p .
  have three': "printed s' \<noteq> printed s \<longrightarrow>
                random_ok (length BIKE_MODELS) (random_random L (length BIKE_MODELS)) \<longrightarrow>
                argsort_ok (normalized_scores L) (argsort L (normalized_scores L)) \<longrightarrow>
                (\<exists>x1 x2 x3. p = JArr [x1, x2, x3])"
    using three by (intro impI)
  from b' c' three' show ?thesis
    by (intro exI [of _ p] conjI) assumption+
qed

theorem detection_result_shape_witness:
  "(\<exists>p. getitem (JObj [(''success'', JBool True), (''filename'', JStr ''bike.jpg''),
                 (''predictions'',
                  JArr [JObj [(''model'', JStr ''Honda CBR600RR''), (''confidence'', JFloat (Fin (1/2)))], JObj [(''model'', JStr ''Yamaha YZF-R1''), (''confidence'', JFloat (Fin (1/4)))],
                        JObj [(''model'', JStr ''Kawasaki Ninja ZX-10R''), (''confidence'', JFloat (Fin (1/8)))]]),
                 (''top_prediction'', JObj [(''model'', JStr ''Honda CBR600RR''), (''confidence'', JFloat (Fin (1/2)))])]) ''predictions''
          = Inr p
        \<and> getitem (JObj [(''success'', JBool True), (''filename'', JStr ''bike.jpg''),
                 (''predictions'',
                  JArr [JObj [(''model'', JStr ''Honda CBR600RR''), (''confidence'', JFloat (Fin (1/2)))], JObj [(''model'', JStr ''Yamaha YZF-R1''), (''confidence'', JFloat (Fin (1/4)))],
                        JObj [(''model'', JStr ''Kawasaki Ninja ZX-10R''), (''confidence'', JFloat (Fin (1/8)))]]),
                 (''top_prediction'', JObj [(''model'', JStr ''Honda CBR600RR''), (''confidence'', JFloat (Fin (1/2)))])]) ''top_prediction''
          = Inr (first_or_none p)
        \<and> (\<exists>x1 x2 x3. p = JArr [x1, x2, x3]))"
proof -
  let ?L = "stub_lib (Some ''sk-test'') (Inl (LibraryError ''Connection error.'')) [] JNull"
  let ?s' = "\<lparr>client = Some ''sk-test'', is_loaded = True,
              printed = [LibraryError ''Connection error.'']\<rparr>"
  let ?P = "JArr [JObj [(''model'', JStr ''Honda CBR600RR''), (''confidence'', JFloat (Fin (1/2)))], JObj [(''model'', JStr ''Yamaha YZF-R1''), (''confidence'', JFloat (Fin (1/4)))],
                  JObj [(''model'', JStr ''Kawasaki Ninja ZX-10R''), (''confidence'', JFloat (Fin (1/8)))]]"
  from detection_result_shape [OF stub_run_fallback] obtain p where
    b: "JObj [(''success'', JBool True), (''filename'', JStr ''bike.jpg''),
              (''predictions'', ?P),
              (''top_prediction'', JObj [(''model'', JStr ''Honda CBR600RR''), (''confidence'', JFloat (Fin (1/2)))])] =
        JObj [(''success'', JBool True),
              (''filename'', (case filename (stub_file ''image/jpeg'' ''abc'') of
                                None \<Rightarrow> JNull | Some n \<Rightarrow> JStr n)),
              (''predictions'', p),
              (''top_prediction'', first_or_none p)]"
    and three: "printed ?s' \<noteq> printed init_state \<longrightarrow>
                random_ok (length BIKE_MODELS) (random_random ?L (length BIKE_MODELS)) \<longrightarrow>
                argsort_ok (normalized_scores ?L) (argsort ?L (normalized_scores ?L)) \<longrightarrow>
                (\<exists>x1 x2 x3. p = JArr [x1, x2, x3])"
    by (elim exE conjE) (rule that; assumption)
  have ne: "printed ?s' \<noteq> printed init_state"
    by (simp add: init_state_def)
  have ro: "random_ok (length BIKE_MODELS) (random_random ?L (length BIKE_MODELS))"
    by (rule stub_random_ok)
  have ao: "argsort_ok (normalized_scores ?L) (argsort ?L (normalized_scores ?L))"
    by (rule stub_argsort_ok)
  have t3: "\<exists>x1 x2 x3. p = JArr [x1, x2, x3]"
    using three ne ro ao by (elim impE) assumption+
  have pe: "?P = p"
    using b by (rule body_predictions_inject)
  have g1: "getitem (JObj [(''success'', JBool True), (''filename'', JStr ''bike.jpg''),
              (''predictions'', ?P),
              (''top_prediction'', JObj [(''model'', JStr ''Honda CBR600RR''), (''confidence'', JFloat (Fin (1/2)))])]) ''predictions''
          = Inr p"
    unfolding pe [symmetric] by simp
  have g2: "getitem (JObj [(''success'', JBool True), (''filename'', JStr ''bike.jpg''),
              (''predictions'', ?P),
              (''top_prediction'', JObj [(''model'', JStr ''Honda CBR600RR''), (''confidence'', JFloat (Fin (1/2)))])]) ''top_prediction''
          = Inr (first_or_none p)"
    unfolding pe [symmetric] by simp
  show ?thesis
    apply (rule exI [of _ p])
    apply (rule conjI)
     apply (rule g1)
    apply (rule conjI)
     apply (rule g2)
    apply (rule t3)
    done
qed

text \<open>
  The claim as stated gives every detection result exactly three predictions. On the
  success path the list is the reply's: a reply with one prediction is answered with one.
\<close>

theorem three_predictions_counterexample:
  "detect_bike_model
       (stub_lib (Some ''sk-test'') (Inr (Some single_reply_text)) single_reply_text
          single_reply_json)
       init_state (stub_file ''image/jpeg'' ''abc'') =
     (Inr (JObj [(''success'', JBool True), (''filename'', JStr ''bike.jpg''),
                 (''predictions'', JArr [JObj [(''model'', JStr ''Honda CBR600RR''), (''confidence'', JFloat (Fin 1))]]),
                 (''top_prediction'', JObj [(''model'', JStr ''Honda CBR600RR''), (''confidence'', JFloat (Fin 1))])]),
      \<lparr>client = Some ''sk-test'', is_loaded = True, printed = []\<rparr>)
   \<and> length [JObj [(''model'', JStr ''Honda CBR600RR''), (''confidence'', JFloat (Fin 1))]] \<noteq> 3"
  using stub_run_single by simp

end
